theory Spec2Isabelle
  imports Complex_Main "HOL-Library.AList" "HOL-Library.Multiset"
begin

section \<open>JavaScript values\<close>

text \<open>
  The item data models are JavaScript (ES modules, hence strict mode). A raw item record
  is a JSON-like value of arbitrary shape, so the migrations are modelled over a type of
  dynamically typed values. A number is NaN, an infinity or a finite value, carried as a
  real (every double is one); numbers are compared and passed on here, and what converts a
  string to a number is a parameter. An array element is
  \<open>None\<close> where the array has a hole (\<open>delete arr[i]\<close> leaves one). An object
  is the list of its own enumerable properties in insertion order. A function is known
  by a name only and has no own enumerable property: a record read from JSON holds none,
  but a read of a configuration table can give one (\<open>table["constructor"]\<close> is the
  function \<open>Object\<close> for a table written as an object literal).
\<close>

datatype jsnum = Fin real | NaN | PosInf | NegInf

datatype jsval =
    JUndefined
  | JNull
  | JBool bool
  | JNum jsnum
  | JStr string
  | JArr "jsval option list"
  | JObj "(string \<times> jsval) list"
  | JFunction string

type_synonym obj = "(string \<times> jsval) list"

datatype error = TypeError

text \<open>Sequencing of fallible steps: an exception thrown by the first step propagates.\<close>

definition ebind :: "error + 'a \<Rightarrow> ('a \<Rightarrow> error + 'b) \<Rightarrow> error + 'b" where
  "ebind m f = (case m of Inl e \<Rightarrow> Inl e | Inr x \<Rightarrow> f x)"

text \<open>\<open>typeof v\<close>.\<close>

fun typeof :: "jsval \<Rightarrow> string" where
  "typeof JUndefined = ''undefined''"
| "typeof JNull = ''object''"
| "typeof (JBool b) = ''boolean''"
| "typeof (JNum n) = ''number''"
| "typeof (JStr s) = ''string''"
| "typeof (JArr xs) = ''object''"
| "typeof (JObj kvs) = ''object''"
| "typeof (JFunction f) = ''function''"

text \<open>Truthiness: \<open>undefined\<close>, \<open>null\<close>, \<open>false\<close>, \<open>0\<close>, \<open>NaN\<close> and \<open>""\<close> are falsy.\<close>

fun truthy :: "jsval \<Rightarrow> bool" where
  "truthy JUndefined = False"
| "truthy JNull = False"
| "truthy (JBool b) = b"
| "truthy (JNum (Fin x)) = (x \<noteq> 0)"
| "truthy (JNum NaN) = False"
| "truthy (JNum PosInf) = True"
| "truthy (JNum NegInf) = True"
| "truthy (JStr s) = (s \<noteq> [])"
| "truthy (JArr xs) = True"
| "truthy (JObj kvs) = True"
| "truthy (JFunction f) = True"

text \<open>\<open>v === null || v === undefined\<close>, the test of \<open>??\<close> and \<open>??=\<close>.\<close>

fun nullish :: "jsval \<Rightarrow> bool" where
  "nullish JUndefined = True"
| "nullish JNull = True"
| "nullish v = False"

text \<open>\<open>source.k\<close> on a record: an absent property reads as \<open>undefined\<close>.\<close>

definition get :: "obj \<Rightarrow> string \<Rightarrow> jsval" where
  "get source k = (case map_of source k of None \<Rightarrow> JUndefined | Some v \<Rightarrow> v)"

text \<open>\<open>k in source\<close>.\<close>

definition has_key :: "obj \<Rightarrow> string \<Rightarrow> bool" where
  "has_key source k = (map_of source k \<noteq> None)"

text \<open>
  \<open>v?.k\<close> for a property name \<open>k\<close> that no built-in object and no prototype
  defines (such as \<open>dex\<close>): only a plain object can have it; on a primitive, an
  array or a function the read gives \<open>undefined\<close>, and so does the optional chaining
  on \<open>null\<close> and \<open>undefined\<close>.
\<close>

fun js_prop :: "jsval \<Rightarrow> string \<Rightarrow> jsval" where
  "js_prop (JObj kvs) k = get kvs k"
| "js_prop v k = JUndefined"

text \<open>\<open>Array.isArray(v)\<close> and \<open>v[0]\<close> on an array (a hole or a missing element reads \<open>undefined\<close>).\<close>

fun isArray :: "jsval \<Rightarrow> bool" where
  "isArray (JArr xs) = True"
| "isArray v = False"

fun first_element :: "jsval option list \<Rightarrow> jsval" where
  "first_element [] = JUndefined"
| "first_element (None # xs) = JUndefined"
| "first_element (Some v # xs) = v"

subsection \<open>Conversion to numbers\<close>

text \<open>
  \<open>Number(b)\<close> of a boolean is 1 or 0.
\<close>

definition BooleanToNumber :: "bool \<Rightarrow> jsnum" where
  "BooleanToNumber b = (if b then Fin 1 else Fin 0)"

text \<open>
  \<open>Number(v)\<close>, also the unary \<open>+v\<close>. The conversion of a string (ECMAScript's
  StringToNumber: white space stripped, the numeric literal read and rounded to a double,
  NaN for anything else) is a function of the platform and a parameter here, so that what
  is proved holds whatever that function is. An array converts through its string form,
  which is not needed: \<open>Number.isNumeric\<close> rejects arrays before converting, and no
  other caller passes one. A plain object converts through \<open>"[object Object]"\<close> and
  a function through its source text, both to NaN.
\<close>

fun ToNumber :: "(string \<Rightarrow> jsnum) \<Rightarrow> jsval \<Rightarrow> jsnum" where
  "ToNumber StringToNumber JUndefined = NaN"
| "ToNumber StringToNumber JNull = Fin 0"
| "ToNumber StringToNumber (JBool b) = BooleanToNumber b"
| "ToNumber StringToNumber (JNum n) = n"
| "ToNumber StringToNumber (JStr s) = StringToNumber s"
| "ToNumber StringToNumber (JArr xs) = NaN"
| "ToNumber StringToNumber (JObj kvs) = NaN"
| "ToNumber StringToNumber (JFunction f) = NaN"

text \<open>
  \<open>Number.isNumeric\<close>, the helper of the Foundry platform the migrations call:
  \<^verbatim>\<open>
  if ( n instanceof Array ) return false;
  else if ( [null, ""].includes(n) ) return false;
  return +n === +n;
  \<close>
  The last line is false exactly when \<open>+n\<close> is NaN.
\<close>

definition Number_isNumeric :: "(string \<Rightarrow> jsnum) \<Rightarrow> jsval \<Rightarrow> bool" where
  "Number_isNumeric StringToNumber n =
     (if isArray n then False
      else if n = JNull \<or> n = JStr [] then False
      else ToNumber StringToNumber n \<noteq> NaN)"

text \<open>\<open>Number.isFinite(v)\<close>: a number that is neither NaN nor an infinity; no coercion.\<close>

fun Number_isFinite :: "jsval \<Rightarrow> bool" where
  "Number_isFinite (JNum (Fin x)) = True"
| "Number_isFinite v = False"

section \<open>Migrations\<close>

text \<open>
  Every \<open>migrateData\<close> first calls \<open>super.migrateData(source)\<close>, the migrations of
  the templates the kind mixes in. The templates are defined in other modules, so the
  inherited migration is a parameter \<open>super_migrateData\<close> of each model; it may
  update the record or throw.
\<close>

subsection \<open>Tool\<close>

definition ToolData_migrateAbility :: "obj \<Rightarrow> obj" where
  "ToolData_migrateAbility source =
     (case get source ''ability'' of
        JArr xs \<Rightarrow> AList.update ''ability'' (first_element xs) source
      | _ \<Rightarrow> source)"

definition ToolData_migrateData :: "(obj \<Rightarrow> error + obj) \<Rightarrow> obj \<Rightarrow> error + obj" where
  "ToolData_migrateData super_migrateData source =
     ebind (super_migrateData source) (\<lambda>source. Inr (ToolData_migrateAbility source))"

subsection \<open>Weapon\<close>

text \<open>
  \<open>Object.entries(v)\<close> lists the own enumerable properties of \<open>v\<close>: the properties
  of an object, the elements of an array that are not holes, the characters of a string,
  nothing for a number or a boolean. A key is an index (of an array or a string) or a
  name; the keys of an object are names. The loop below only hands each key back to
  \<open>delete\<close>, so the order of the entries does not matter to its result.
\<close>

datatype pkey = Idx nat | Key string

fun array_entries :: "nat \<Rightarrow> jsval option list \<Rightarrow> (pkey \<times> jsval) list" where
  "array_entries i [] = []"
| "array_entries i (None # xs) = array_entries (Suc i) xs"
| "array_entries i (Some v # xs) = (Idx i, v) # array_entries (Suc i) xs"

fun string_entries :: "nat \<Rightarrow> string \<Rightarrow> (pkey \<times> jsval) list" where
  "string_entries i [] = []"
| "string_entries i (c # cs) = (Idx i, JStr [c]) # string_entries (Suc i) cs"

fun Object_entries :: "jsval \<Rightarrow> (pkey \<times> jsval) list" where
  "Object_entries (JObj kvs) = map (\<lambda>(k, v). (Key k, v)) kvs"
| "Object_entries (JArr xs) = array_entries 0 xs"
| "Object_entries (JStr s) = string_entries 0 s"
| "Object_entries v = []"

text \<open>
  \<open>delete v[key]\<close> in strict mode. On an object the property is removed; on an array
  the element becomes a hole; a character of a string is a non-configurable property, so
  the deletion fails, and in strict mode a failed deletion throws a TypeError. Deleting
  a property that does not exist succeeds and changes nothing.
\<close>

fun js_delete :: "jsval \<Rightarrow> pkey \<Rightarrow> error + jsval" where
  "js_delete (JObj kvs) (Key k) = Inr (JObj (AList.delete k kvs))"
| "js_delete (JArr xs) (Idx i) = Inr (JArr (if i < length xs then xs[i := None] else xs))"
| "js_delete (JStr s) (Idx i) = (if i < length s then Inl TypeError else Inr (JStr s))"
| "js_delete v key = Inr v"

text \<open>
  The loop of \<open>#migratePropertiesData\<close> over a snapshot of the entries:
  \<^verbatim>\<open>
  for ( const [key, value] of Object.entries(source.properties) ) {
    if ( typeof value !== "boolean" ) delete source.properties[key];
  }
  \<close>
\<close>

fun delete_non_booleans :: "(pkey \<times> jsval) list \<Rightarrow> jsval \<Rightarrow> error + jsval" where
  "delete_non_booleans [] properties = Inr properties"
| "delete_non_booleans ((key, v) # es) properties =
     (if typeof v \<noteq> ''boolean''
      then ebind (js_delete properties key) (delete_non_booleans es)
      else delete_non_booleans es properties)"

definition WeaponData_migratePropertiesData :: "obj \<Rightarrow> error + obj" where
  "WeaponData_migratePropertiesData source =
     (if \<not> truthy (get source ''properties'') then Inr source
      else ebind (delete_non_booleans (Object_entries (get source ''properties'')) (get source ''properties''))
             (\<lambda>properties. Inr (AList.update ''properties'' properties source)))"

text \<open>
  \<open>#migrateProficient\<close>: \<open>typeof v === "boolean"\<close> holds exactly of the two
  booleans, and \<open>Number\<close> is then applied to a boolean.
\<close>

definition WeaponData_migrateProficient :: "obj \<Rightarrow> obj" where
  "WeaponData_migrateProficient source =
     (case get source ''proficient'' of
        JBool b \<Rightarrow> AList.update ''proficient'' (JNum (BooleanToNumber b)) source
      | _ \<Rightarrow> source)"

definition WeaponData_migrateWeaponType :: "obj \<Rightarrow> obj" where
  "WeaponData_migrateWeaponType source =
     (if get source ''weaponType'' = JNull
      then AList.update ''weaponType'' (JStr ''simpleM'') source
      else source)"

definition WeaponData_migrateData :: "(obj \<Rightarrow> error + obj) \<Rightarrow> obj \<Rightarrow> error + obj" where
  "WeaponData_migrateData super_migrateData source =
     ebind (super_migrateData source) (\<lambda>source.
     ebind (WeaponData_migratePropertiesData source) (\<lambda>source.
     Inr (WeaponData_migrateWeaponType (WeaponData_migrateProficient source))))"

subsection \<open>Equipment\<close>

text \<open>
  \<open>#migrateArmor\<close>. After \<open>source.armor ??= {}\<close> the armor value is neither
  \<open>null\<close> nor \<open>undefined\<close>, so reading \<open>armor.type\<close> and \<open>armor.dex\<close> cannot
  throw. When the armor value is not a plain object (a primitive or an array), both reads
  give \<open>undefined\<close> and neither assignment runs; the two steps are therefore
  written on the properties of the object.
\<close>

definition migrate_armor_type :: "obj \<Rightarrow> obj" where
  "migrate_armor_type armor =
     (if get armor ''type'' = JStr ''bonus''
      then AList.update ''type'' (JStr ''trinket'') armor else armor)"

definition migrate_armor_dex :: "(string \<Rightarrow> jsnum) \<Rightarrow> obj \<Rightarrow> obj" where
  "migrate_armor_dex StringToNumber armor =
     (if typeof (get armor ''dex'') = ''string'' then
        (let dex = get armor ''dex''
         in if dex = JStr [] then AList.update ''dex'' JNull armor
            else if Number_isNumeric StringToNumber dex
            then AList.update ''dex'' (JNum (ToNumber StringToNumber dex)) armor
            else armor)
      else armor)"

definition EquipmentData_migrateArmor :: "(string \<Rightarrow> jsnum) \<Rightarrow> obj \<Rightarrow> obj" where
  "EquipmentData_migrateArmor StringToNumber source =
     (if \<not> has_key source ''armor'' then source
      else
        (let source = (if nullish (get source ''armor'')
                       then AList.update ''armor'' (JObj []) source else source)
         in case get source ''armor'' of
              JObj armor \<Rightarrow>
                AList.update ''armor''
                  (JObj (migrate_armor_dex StringToNumber (migrate_armor_type armor))) source
            | _ \<Rightarrow> source))"

text \<open>\<open>#migrateStrength\<close>: two independent tests follow the early return.\<close>

definition EquipmentData_migrateStrength :: "(string \<Rightarrow> jsnum) \<Rightarrow> obj \<Rightarrow> obj" where
  "EquipmentData_migrateStrength StringToNumber source =
     (if typeof (get source ''strength'') \<noteq> ''string'' then source
      else
        (let source = (if get source ''strength'' = JStr []
                       then AList.update ''strength'' JNull source else source)
         in if Number_isNumeric StringToNumber (get source ''strength'')
            then AList.update ''strength''
                   (JNum (ToNumber StringToNumber (get source ''strength''))) source
            else source))"

definition EquipmentData_migrateProficient :: "obj \<Rightarrow> obj" where
  "EquipmentData_migrateProficient source =
     (case get source ''proficient'' of
        JBool b \<Rightarrow> AList.update ''proficient'' (JNum (BooleanToNumber b)) source
      | _ \<Rightarrow> source)"

definition EquipmentData_migrateData ::
  "(string \<Rightarrow> jsnum) \<Rightarrow> (obj \<Rightarrow> error + obj) \<Rightarrow> obj \<Rightarrow> error + obj" where
  "EquipmentData_migrateData StringToNumber super_migrateData source =
     ebind (super_migrateData source) (\<lambda>source.
     Inr (EquipmentData_migrateProficient
           (EquipmentData_migrateStrength StringToNumber
             (EquipmentData_migrateArmor StringToNumber source))))"

subsection \<open>Consumable, and the dispatch on the kind\<close>

text \<open>
  \<open>ConsumableData\<close> declares no \<open>migrateData\<close> of its own: its migration is the
  inherited one alone.
\<close>

definition ConsumableData_migrateData :: "(obj \<Rightarrow> error + obj) \<Rightarrow> obj \<Rightarrow> error + obj" where
  "ConsumableData_migrateData super_migrateData source = super_migrateData source"

datatype kind = Weapon | Equipment | Tool | Consumable

fun migrate ::
  "(string \<Rightarrow> jsnum) \<Rightarrow> (obj \<Rightarrow> error + obj) \<Rightarrow> kind \<Rightarrow> obj \<Rightarrow> error + obj" where
  "migrate StringToNumber super_migrateData Weapon = WeaponData_migrateData super_migrateData"
| "migrate StringToNumber super_migrateData Equipment =
     EquipmentData_migrateData StringToNumber super_migrateData"
| "migrate StringToNumber super_migrateData Tool = ToolData_migrateData super_migrateData"
| "migrate StringToNumber super_migrateData Consumable = ConsumableData_migrateData super_migrateData"


section \<open>Derived attributes\<close>

text \<open>
  The getters run on a validated data model, so the fields have the types the schema
  declares. \<open>CONFIG.DND5E\<close> and \<open>game.i18n\<close> are defined in other modules;
  what is read from them are the fields of \<open>config\<close>. A table is given by its reads:
  \<open>equipmentTypes cfg k\<close> is the value of \<open>CONFIG.DND5E.equipmentTypes[k]\<close>,
  whether the table holds \<open>k\<close> itself, inherits it from its prototype, or has no such
  property (\<open>undefined\<close>).
\<close>

record config =
  weaponProficienciesMap :: "string \<Rightarrow> jsval"
  armorProficienciesMap :: "string \<Rightarrow> jsval"
  equipmentTypes :: "string \<Rightarrow> jsval"
  consumableTypes :: "string \<Rightarrow> jsval"
  abilityLabels :: "string \<Rightarrow> jsval"
  maxLevel :: int
  localize :: "string \<Rightarrow> string"
  format :: "string \<Rightarrow> (string \<times> string) list \<Rightarrow> string"
  toString :: "jsval \<Rightarrow> string"
  slugify :: "string \<Rightarrow> string"

text \<open>
  \<open>abilityLabels cfg k\<close> is the value of \<open>CONFIG.DND5E.abilities[k]?.label\<close>,
  \<open>toString\<close> the string conversion of a template literal, \<open>slugify\<close> the
  platform's \<open>name.slugify({strict: true})\<close>.
\<close>

text \<open>
  The owning actor, as far as the getters read it: \<open>actor.type\<close>,
  \<open>actor.system.abilities\<close> (each ability with its \<open>mod\<close>, \<open>None\<close> when
  \<open>null\<close> or \<open>undefined\<close>), \<open>actor.system.traits?.weaponProf?.value\<close> and
  \<open>armorProf\<close> (\<open>None\<close> when the chain ends in \<open>undefined\<close>),
  \<open>actor.system.tools\<close> (each entry with its \<open>value\<close>), and the flag
  \<open>actor.getFlag("dnd5e", "tavernBrawlerFeat")\<close>.
\<close>

record Actor5e =
  actor_type :: string
  abilities :: "(string \<rightharpoonup> jsnum option) option"
  weaponProf :: "jsval set option"
  armorProf :: "jsval set option"
  tools :: "(string \<rightharpoonup> jsnum option) option"
  tavernBrawlerFeat :: jsval

text \<open>The item document that owns a data model: \<open>parent.actor\<close> (or \<open>null\<close>) and \<open>parent.labels\<close>.\<close>

record Item5e =
  actor :: "Actor5e option"
  labels :: "(string \<rightharpoonup> string) option"

record item_data =
  parent :: "Item5e option"

record proficient_data = item_data +
  baseItem :: string
  proficient :: jsval

record weapon_data = proficient_data +
  weaponType :: string
  properties :: "string \<rightharpoonup> bool"

record equipment_data = proficient_data +
  armor_type :: string
  stealth :: bool

record tool_data = proficient_data +
  toolType :: string
  ability :: string

text \<open>
  \<open>hasLimitedUses\<close> is a getter of the activated-effect template, which is defined in
  another module; its value is a field here.
\<close>

record consumable_data = item_data +
  consumableType :: string
  hasLimitedUses :: bool
  uses_value :: jsval
  uses_max :: jsval

text \<open>\<open>this.parent?.actor\<close>.\<close>

definition parent_actor :: "'a item_data_scheme \<Rightarrow> Actor5e option" where
  "parent_actor this = (case parent this of None \<Rightarrow> None | Some item \<Rightarrow> actor item)"

text \<open>\<open>x ?? 0\<close> on a number, \<open>a >= b\<close> and \<open>Math.max(a, b)\<close>; NaN compares false and propagates.\<close>

definition or_zero :: "jsnum option \<Rightarrow> jsnum" where
  "or_zero x = (case x of None \<Rightarrow> Fin 0 | Some n \<Rightarrow> n)"

fun js_ge :: "jsnum \<Rightarrow> jsnum \<Rightarrow> bool" where
  "js_ge NaN b = False"
| "js_ge a NaN = False"
| "js_ge PosInf b = True"
| "js_ge a NegInf = True"
| "js_ge (Fin x) (Fin y) = (x \<ge> y)"
| "js_ge (Fin x) PosInf = False"
| "js_ge NegInf b = False"

definition Math_max :: "jsnum \<Rightarrow> jsnum \<Rightarrow> jsnum" where
  "Math_max a b = (if a = NaN \<or> b = NaN then NaN else if js_ge a b then a else b)"

subsection \<open>Weapon\<close>

definition WeaponData_typeAbilityMod :: "weapon_data \<Rightarrow> jsval" where
  "WeaponData_typeAbilityMod this =
     (if weaponType this \<in> set [''simpleR'', ''martialR''] then JStr ''dex''
      else
        (case (properties this ''fin'', Option.bind (parent_actor this) abilities) of
           (Some True, Some scores) \<Rightarrow>
             if js_ge (or_zero (Option.bind (scores ''dex'') id))
                      (or_zero (Option.bind (scores ''str'') id))
             then JStr ''dex'' else JStr ''str''
         | _ \<Rightarrow> JNull))"

text \<open>
  \<open>this.parent.actor\<close> has no optional chaining: without a parent document the read
  throws.
\<close>

definition WeaponData_proficiencyMultiplier :: "config \<Rightarrow> weapon_data \<Rightarrow> error + jsval" where
  "WeaponData_proficiencyMultiplier cfg this =
     (if Number_isFinite (proficient this) then Inr (proficient this)
      else
        (case parent this of
           None \<Rightarrow> Inl TypeError
         | Some item \<Rightarrow>
             (case actor item of
                None \<Rightarrow> Inr (JNum (Fin 0))
              | Some owner \<Rightarrow>
                  if actor_type owner = ''npc'' then Inr (JNum (Fin 1))
                  else
                    (let itemProf = weaponProficienciesMap cfg (weaponType this);
                         actorProfs = (case weaponProf owner of None \<Rightarrow> {} | Some profs \<Rightarrow> profs);
                         natural = (weaponType this = ''natural'');
                         improvised = (weaponType this = ''improv'' \<and> truthy (tavernBrawlerFeat owner));
                         isProficient = (natural \<or> improvised \<or> itemProf \<in> actorProfs
                                         \<or> JStr (baseItem this) \<in> actorProfs)
                     in Inr (JNum (BooleanToNumber isProficient))))))"

subsection \<open>Equipment\<close>

definition EquipmentData_chatProperties :: "config \<Rightarrow> equipment_data \<Rightarrow> error + jsval list" where
  "EquipmentData_chatProperties cfg this =
     (case parent this of
        None \<Rightarrow> Inl TypeError
      | Some item \<Rightarrow>
          Inr [equipmentTypes cfg (armor_type this),
               (case Option.bind (labels item) (\<lambda>l. l ''armor'') of None \<Rightarrow> JNull | Some l \<Rightarrow> JStr l),
               (if stealth this then JStr (localize cfg ''DND5E.StealthDisadvantage'') else JNull)])"

definition EquipmentData_proficiencyMultiplier :: "config \<Rightarrow> equipment_data \<Rightarrow> error + jsval" where
  "EquipmentData_proficiencyMultiplier cfg this =
     (if Number_isFinite (proficient this) then Inr (proficient this)
      else
        (case parent this of
           None \<Rightarrow> Inl TypeError
         | Some item \<Rightarrow>
             (case actor item of
                None \<Rightarrow> Inr (JNum (Fin 0))
              | Some owner \<Rightarrow>
                  if actor_type owner = ''npc'' then Inr (JNum (Fin 1))
                  else
                    (let itemProf = armorProficienciesMap cfg (armor_type this);
                         actorProfs = (case armorProf owner of None \<Rightarrow> {} | Some profs \<Rightarrow> profs);
                         isProficient = (itemProf = JBool True \<or> itemProf \<in> actorProfs
                                         \<or> JStr (baseItem this) \<in> actorProfs)
                     in Inr (JNum (BooleanToNumber isProficient))))))"

subsection \<open>Tool\<close>

definition ToolData_chatProperties :: "config \<Rightarrow> tool_data \<Rightarrow> jsval list" where
  "ToolData_chatProperties cfg this = [abilityLabels cfg (ability this)]"

definition ToolData_proficiencyMultiplier :: "tool_data \<Rightarrow> error + jsval" where
  "ToolData_proficiencyMultiplier this =
     (if Number_isFinite (proficient this) then Inr (proficient this)
      else
        (case parent this of
           None \<Rightarrow> Inl TypeError
         | Some item \<Rightarrow>
             (case actor item of
                None \<Rightarrow> Inr (JNum (Fin 0))
              | Some owner \<Rightarrow>
                  if actor_type owner = ''npc'' then Inr (JNum (Fin 1))
                  else
                    (let baseItemProf = Option.bind (tools owner) (\<lambda>t. t (baseItem this));
                         categoryProf = Option.bind (tools owner) (\<lambda>t. t (toolType this))
                     in Inr (JNum (Math_max (or_zero (Option.bind baseItemProf id))
                                            (or_zero (Option.bind categoryProf id))))))))"

subsection \<open>Consumable\<close>

definition ConsumableData_chatProperties :: "config \<Rightarrow> consumable_data \<Rightarrow> jsval list" where
  "ConsumableData_chatProperties cfg this =
     [consumableTypes cfg (consumableType this),
      (if hasLimitedUses this
       then JStr (toString cfg (uses_value this) @ ''/'' @ toString cfg (uses_max this)
                  @ '' '' @ localize cfg ''DND5E.Charges'')
       else JNull)]"

definition ConsumableData_proficiencyMultiplier :: "consumable_data \<Rightarrow> jsval" where
  "ConsumableData_proficiencyMultiplier this =
     (let isProficient = (case parent_actor this of
                            None \<Rightarrow> JUndefined
                          | Some owner \<Rightarrow> tavernBrawlerFeat owner)
      in if truthy isProficient then JNum (Fin 1) else JNum (Fin 0))"


section \<open>The character sheet: preparing the items\<close>

text \<open>
  An item as \<open>_prepareItems\<close> reads it: \<open>id\<close>, \<open>name\<close>, \<open>type\<close>, and of its
  system data \<open>levels\<close> and \<open>identifier\<close> (class), \<open>classIdentifier\<close> (subclass)
  and \<open>activation?.type\<close> (\<open>None\<close> when \<open>null\<close> or \<open>undefined\<close>).
\<close>

record sheet_item =
  item_id :: string
  item_name :: string
  item_type :: string
  levels :: int
  system_identifier :: string
  classIdentifier :: string
  activation_type :: "string option"

record level_option =
  level :: int
  delta :: int
  disabled :: bool

record warning =
  message :: string
  warning_type :: string

text \<open>
  The part of the context that depends on classes, subclasses and features: the feature
  sections, the warnings, and \<open>itemContext[id].availableLevels\<close> of each class.
\<close>

record sheet_view =
  background_items :: "sheet_item list"
  classes_items :: "sheet_item list"
  active_items :: "sheet_item list"
  passive_items :: "sheet_item list"
  warnings :: "warning list"
  availableLevels :: "(string \<times> level_option list) list"

text \<open>
  Helpers of the platform: \<open>Array.fromRange(n)\<close> is the array \<open>[0, ..., n - 1]\<close>;
  \<open>arr.findSplice(f)\<close> removes the first element that satisfies \<open>f\<close> and returns it,
  or returns \<open>null\<close> and leaves the array as it is.
\<close>

definition Array_fromRange :: "int \<Rightarrow> int list" where
  "Array_fromRange n = map int [0..<nat n]"

fun findSplice :: "('a \<Rightarrow> bool) \<Rightarrow> 'a list \<Rightarrow> 'a option \<times> 'a list" where
  "findSplice f [] = (None, [])"
| "findSplice f (x # xs) =
     (if f x then (Some x, xs)
      else (let (found, rest) = findSplice f xs in (found, x # rest)))"

text \<open>
  \<^verbatim>\<open>
  ctx.availableLevels = Array.fromRange(CONFIG.DND5E.maxLevel + 1).slice(1).map(level => {
    const delta = level - cls.system.levels;
    return { level, delta, disabled: delta > maxLevelDelta };
  });
  \<close>
\<close>

definition class_availableLevels :: "config \<Rightarrow> int \<Rightarrow> sheet_item \<Rightarrow> level_option list" where
  "class_availableLevels cfg maxLevelDelta cls =
     map (\<lambda>lv. \<lparr>level = lv, delta = lv - levels cls, disabled = (lv - levels cls > maxLevelDelta)\<rparr>)
       (drop 1 (Array_fromRange (maxLevel cfg + 1)))"

text \<open>The reduction over the sorted classes: each class, then its subclass if one is found.\<close>

fun interleave_subclasses ::
  "config \<Rightarrow> sheet_item list \<Rightarrow> sheet_item list \<Rightarrow> sheet_item list \<times> sheet_item list" where
  "interleave_subclasses cfg [] subclasses = ([], subclasses)"
| "interleave_subclasses cfg (cls # classes) subclasses =
     (let ident = (if system_identifier cls \<noteq> [] then system_identifier cls else slugify cfg (item_name cls));
          (subclass, subclasses) = findSplice (\<lambda>s. classIdentifier s = ident) subclasses;
          (arr, subclasses) = interleave_subclasses cfg classes subclasses
      in (cls # (case subclass of None \<Rightarrow> [] | Some s \<Rightarrow> [s]) @ arr, subclasses))"

definition subclass_warning :: "config \<Rightarrow> sheet_item \<Rightarrow> warning" where
  "subclass_warning cfg subclass =
     \<lparr>message = format cfg ''DND5E.SubclassMismatchWarn''
                  [(''name'', item_name subclass), (''class'', classIdentifier subclass)],
      warning_type = ''warning''\<rparr>"

definition has_activation :: "sheet_item \<Rightarrow> bool" where
  "has_activation feat = (case activation_type feat of None \<Rightarrow> False | Some t \<Rightarrow> t \<noteq> [])"

text \<open>
  \<open>_prepareItems\<close>, for the class and feature sections. \<open>actor_level\<close> is
  \<open>this.actor.system.details.level\<close>; \<open>features_filter\<close> is the predicate that
  \<open>this._filterItems(feats, this._filters.features)\<close> keeps the items of;
  \<open>context_warnings\<close> is \<open>context.warnings\<close> on entry. The comparator
  \<open>b.system.levels - a.system.levels\<close> sorts by descending level, and the sort is
  stable. The inventory and the spellbook are built from the other partitions and are
  left out.
\<close>

definition prepareItems ::
  "config \<Rightarrow> int \<Rightarrow> (sheet_item \<Rightarrow> bool) \<Rightarrow> warning list \<Rightarrow> sheet_item list \<Rightarrow> sheet_view" where
  "prepareItems cfg actor_level features_filter context_warnings items =
     (let feats = filter (\<lambda>i. item_type i = ''feat'') items;
          backgrounds = filter (\<lambda>i. item_type i = ''background'') items;
          classes = filter (\<lambda>i. item_type i = ''class'') items;
          subclasses = filter (\<lambda>i. item_type i = ''subclass'') items;
          feats = filter features_filter feats;
          classes = sort_key (\<lambda>c. - levels c) classes;
          maxLevelDelta = maxLevel cfg - actor_level;
          levelChoices = map (\<lambda>cls. (item_id cls, class_availableLevels cfg maxLevelDelta cls)) classes;
          (classes, subclasses) = interleave_subclasses cfg classes subclasses;
          feats = feats @ subclasses
      in \<lparr>background_items = backgrounds,
          classes_items = classes,
          active_items = filter has_activation feats,
          passive_items = filter (\<lambda>f. \<not> has_activation f) feats,
          warnings = context_warnings @ map (subclass_warning cfg) subclasses,
          availableLevels = levelChoices\<rparr>)"


section \<open>Example data and auxiliary definitions\<close>

text \<open>
  What the loop of \<open>#migratePropertiesData\<close> makes of one array element: a boolean
  stays, anything else becomes a hole.
\<close>

fun clean :: "jsval option \<Rightarrow> jsval option" where
  "clean None = None"
| "clean (Some v) = (if typeof v = ''boolean'' then Some v else None)"

text \<open>
  The rule of the specification for the optional numeric fields of an equipment record,
  made precise, for comparison with the migration: the empty string becomes
  \<open>null\<close>, a string that converts to a number becomes that number, and every other
  value stays as it is.
\<close>

definition spec_numeric_field :: "(string \<Rightarrow> jsnum) \<Rightarrow> jsval \<Rightarrow> jsval" where
  "spec_numeric_field StringToNumber v =
     (case v of
        JStr x \<Rightarrow> if x = [] then JNull
                  else if StringToNumber x \<noteq> NaN then JNum (StringToNumber x)
                  else JStr x
      | _ \<Rightarrow> v)"

text \<open>
  The examples apply \<open>Number\<close> to three strings only: \<open>"2"\<close>, which converts to 2,
  and \<open>"abc"\<close> and \<open>"max 2"\<close>, which are no numeric literals and convert to NaN.
  \<open>example_Number\<close> has these values; its value at any other string plays no part.
\<close>

definition example_Number :: "string \<Rightarrow> jsnum" where
  "example_Number s = (if s = ''2'' then Fin 2 else NaN)"

text \<open>
  The reads of a table that was created without a prototype (\<open>Object.create(null)\<close>)
  and holds the given entries: a key it does not hold reads \<open>undefined\<close>.
\<close>

definition table_without_prototype :: "(string \<times> jsval) list \<Rightarrow> string \<Rightarrow> jsval" where
  "table_without_prototype entries k = (case map_of entries k of None \<Rightarrow> JUndefined | Some v \<Rightarrow> v)"

text \<open>
  An example configuration with such tables and an example actor of a given kind, an item
  document owned by an actor, and class and subclass items as the examples of the
  specification give them. Its \<open>localize\<close> returns the key, its \<open>format\<close> appends
  the data to the key, and its \<open>toString\<close> has the decimal form of the two numbers the
  examples convert, 1 and 3.
\<close>

definition example_config :: config where
  "example_config =
     \<lparr>weaponProficienciesMap = table_without_prototype
        [(''simpleM'', JStr ''sim''), (''simpleR'', JStr ''sim''),
         (''martialM'', JStr ''mar''), (''martialR'', JStr ''mar'')],
      armorProficienciesMap = table_without_prototype
        [(''natural'', JBool True), (''clothing'', JBool True), (''light'', JStr ''lgt''),
         (''medium'', JStr ''med''), (''heavy'', JStr ''hvy''), (''shield'', JStr ''shl'')],
      equipmentTypes = table_without_prototype
        [(''light'', JStr ''Light Armor''), (''clothing'', JStr ''Clothing'')],
      consumableTypes = table_without_prototype [(''potion'', JStr ''Potion'')],
      abilityLabels = table_without_prototype
        [(''str'', JStr ''Strength''), (''dex'', JStr ''Dexterity'')],
      maxLevel = 20,
      localize = (\<lambda>key. key),
      format = (\<lambda>key data. key @ concat (map (\<lambda>(name, v). '' '' @ name @ ''='' @ v) data)),
      toString = (\<lambda>v. if v = JNum (Fin 1) then ''1'' else if v = JNum (Fin 3) then ''3'' else []),
      slugify = (\<lambda>name. name)\<rparr>"

definition example_actor :: "string \<Rightarrow> Actor5e" where
  "example_actor kind =
     \<lparr>actor_type = kind,
      abilities = Some [''str'' \<mapsto> Some (Fin 1), ''dex'' \<mapsto> Some (Fin 3)],
      weaponProf = Some {JStr ''sim''},
      armorProf = Some {JStr ''lgt''},
      tools = Some [''thief'' \<mapsto> Some (Fin 2), ''art'' \<mapsto> Some (Fin (1/2))],
      tavernBrawlerFeat = JUndefined\<rparr>"

definition owned_by :: "Actor5e \<Rightarrow> Item5e option" where
  "owned_by owner = Some \<lparr>actor = Some owner, labels = None\<rparr>"

definition class_item :: "string \<Rightarrow> string \<Rightarrow> string \<Rightarrow> int \<Rightarrow> sheet_item" where
  "class_item ident name class_ident lv =
     \<lparr>item_id = ident, item_name = name, item_type = ''class'', levels = lv,
      system_identifier = class_ident, classIdentifier = [], activation_type = None\<rparr>"

definition subclass_item :: "string \<Rightarrow> string \<Rightarrow> string \<Rightarrow> sheet_item" where
  "subclass_item ident name parent_ident =
     \<lparr>item_id = ident, item_name = name, item_type = ''subclass'', levels = 0,
      system_identifier = [], classIdentifier = parent_ident, activation_type = None\<rparr>"

section \<open>Properties of the migrations\<close>

lemma ebind_simps [simp]: "ebind (Inl e) f = Inl e" "ebind (Inr x) f = f x"
  by (simp_all add: ebind_def)

lemma get_update: "get (AList.update k v s) k' = (if k' = k then v else get s k')"
  by (simp add: get_def update_conv')

lemma loop_all_boolean:
  "\<forall>(k, v) \<in> set es. typeof v = ''boolean'' \<Longrightarrow> delete_non_booleans es p = Inr p"
  by (induction es arbitrary: p) auto

lemma loop_object:
  "delete_non_booleans (map (\<lambda>(k, v). (Key k, v)) es) (JObj kvs) =
     Inr (JObj (filter (\<lambda>(k, v). \<forall>v'. (k, v') \<in> set es \<longrightarrow> typeof v' = ''boolean'') kvs))"
proof (induction es arbitrary: kvs)
  case Nil
  then show ?case by simp
next
  case (Cons e es)
  obtain k0 v0 where e: "e = (k0, v0)" by (cases e)
  show ?case
  proof (cases "typeof v0 = ''boolean''")
    case True
    have "filter (\<lambda>(k, v). \<forall>v'. (k, v') \<in> set (e # es) \<longrightarrow> typeof v' = ''boolean'') kvs
        = filter (\<lambda>(k, v). \<forall>v'. (k, v') \<in> set es \<longrightarrow> typeof v' = ''boolean'') kvs"
      using True e by (intro filter_cong) auto
    then show ?thesis using True e Cons.IH by simp
  next
    case False
    have "filter (\<lambda>(k, v). \<forall>v'. (k, v') \<in> set (e # es) \<longrightarrow> typeof v' = ''boolean'') kvs
        = filter (\<lambda>(k, v). \<forall>v'. (k, v') \<in> set es \<longrightarrow> typeof v' = ''boolean'')
            (AList.delete k0 kvs)"
      using False e unfolding AList.delete_eq filter_filter by (intro filter_cong) auto
    then show ?thesis using False e Cons.IH by simp
  qed
qed

lemma loop_array:
  "length pre = i \<Longrightarrow>
   delete_non_booleans (array_entries i ys) (JArr (pre @ ys)) = Inr (JArr (pre @ map clean ys))"
proof (induction ys arbitrary: pre i)
  case Nil
  then show ?case by simp
next
  case (Cons y ys)
  show ?case
  proof (cases y)
    case None
    have "delete_non_booleans (array_entries (Suc i) ys) (JArr ((pre @ [None]) @ ys))
        = Inr (JArr ((pre @ [None]) @ map clean ys))"
      by (rule Cons.IH) (simp add: Cons.prems)
    then show ?thesis using None by simp
  next
    case (Some v)
    show ?thesis
    proof (cases "typeof v = ''boolean''")
      case True
      have "delete_non_booleans (array_entries (Suc i) ys) (JArr ((pre @ [Some v]) @ ys))
          = Inr (JArr ((pre @ [Some v]) @ map clean ys))"
        by (rule Cons.IH) (simp add: Cons.prems)
      then show ?thesis using Some True by simp
    next
      case False
      have "delete_non_booleans (array_entries (Suc i) ys) (JArr ((pre @ [None]) @ ys))
          = Inr (JArr ((pre @ [None]) @ map clean ys))"
        by (rule Cons.IH) (simp add: Cons.prems)
      moreover have "(pre @ Some v # ys)[i := None] = pre @ None # ys"
        using Cons.prems by (simp add: list_update_append)
      ultimately show ?thesis using Some False Cons.prems by simp
    qed
  qed
qed

lemma array_entries_clean:
  "(k, v) \<in> set (array_entries i (map clean ys)) \<Longrightarrow> typeof v = ''boolean''"
proof (induction ys arbitrary: i)
  case Nil
  then show ?case by simp
next
  case (Cons y ys)
  then show ?case by (cases y) (auto split: if_splits)
qed

lemma loop_idem:
  assumes "delete_non_booleans (Object_entries p) p = Inr p'"
  shows "delete_non_booleans (Object_entries p') p' = Inr p'"
proof (cases p)
  case (JObj kvs)
  let ?kvs' = "filter (\<lambda>(k, v). \<forall>v'. (k, v') \<in> set kvs \<longrightarrow> typeof v' = ''boolean'') kvs"
  have p': "p' = JObj ?kvs'" using assms JObj by (simp add: loop_object)
  have "\<forall>(k, v) \<in> set (Object_entries p'). typeof v = ''boolean''"
    unfolding p' by auto
  then show ?thesis by (rule loop_all_boolean)
next
  case (JArr xs)
  have p': "p' = JArr (map clean xs)"
    using assms JArr loop_array [of "[]" 0 xs] by simp
  have "\<forall>(k, v) \<in> set (Object_entries p'). typeof v = ''boolean''"
    unfolding p' using array_entries_clean by auto
  then show ?thesis by (rule loop_all_boolean)
next
  case (JStr s)
  then show ?thesis using assms by (cases s) (auto split: if_splits)
qed (use assms in auto)


lemma properties_cases:
  assumes "WeaponData_migratePropertiesData s = Inr p"
  obtains (falsy) "\<not> truthy (get s ''properties'')" "p = s"
  | (looped) v where "truthy (get s ''properties'')"
      "delete_non_booleans (Object_entries (get s ''properties'')) (get s ''properties'') = Inr v"
      "p = AList.update ''properties'' v s"
proof (cases "truthy (get s ''properties'')")
  case False
  then have "p = s" using assms by (simp add: WeaponData_migratePropertiesData_def)
  with False show ?thesis by (rule falsy)
next
  case True
  show ?thesis
  proof (cases "delete_non_booleans (Object_entries (get s ''properties'')) (get s ''properties'')")
    case (Inl e)
    then show ?thesis using assms True by (simp add: WeaponData_migratePropertiesData_def)
  next
    case (Inr v)
    then have "p = AList.update ''properties'' v s"
      using assms True by (simp add: WeaponData_migratePropertiesData_def)
    with True Inr show ?thesis by (rule looped)
  qed
qed

lemma properties_fix:
  assumes "WeaponData_migratePropertiesData s = Inr p"
    and "map_of t ''properties'' = map_of p ''properties''"
  shows "WeaponData_migratePropertiesData t = Inr t"
  using assms(1)
proof (cases rule: properties_cases)
  case falsy
  then have "get t ''properties'' = get s ''properties''" using assms(2) by (simp add: get_def)
  then show ?thesis using falsy by (simp add: WeaponData_migratePropertiesData_def)
next
  case (looped v)
  have t: "map_of t ''properties'' = Some v" using assms(2) looped(3) by (simp add: update_conv')
  then have g: "get t ''properties'' = v" by (simp add: get_def)
  have "delete_non_booleans (Object_entries v) v = Inr v" using looped(2) by (rule loop_idem)
  moreover have "AList.update ''properties'' v t = t" using t by (rule update_triv)
  ultimately show ?thesis by (simp add: WeaponData_migratePropertiesData_def g)
qed

lemma properties_other:
  assumes "WeaponData_migratePropertiesData s = Inr p" and "k \<noteq> ''properties''"
  shows "map_of p k = map_of s k"
  using assms(1)
proof (cases rule: properties_cases)
  case falsy
  then show ?thesis by simp
next
  case (looped v)
  then show ?thesis using assms(2) by (simp add: update_conv')
qed

lemma weapon_proficient_other:
  "k \<noteq> ''proficient'' \<Longrightarrow> map_of (WeaponData_migrateProficient s) k = map_of s k"
  by (cases "get s ''proficient''") (simp_all add: WeaponData_migrateProficient_def update_conv')

lemma weapon_proficient_fix:
  assumes "map_of t ''proficient'' = map_of (WeaponData_migrateProficient s) ''proficient''"
  shows "WeaponData_migrateProficient t = t"
proof -
  have "typeof (get (WeaponData_migrateProficient s) ''proficient'') \<noteq> ''boolean''"
    by (cases "get s ''proficient''") (simp_all add: WeaponData_migrateProficient_def get_update)
  then have "typeof (get t ''proficient'') \<noteq> ''boolean''" using assms by (simp add: get_def)
  then show ?thesis
    by (cases "get t ''proficient''") (simp_all add: WeaponData_migrateProficient_def)
qed

lemma weaponType_other:
  "k \<noteq> ''weaponType'' \<Longrightarrow> map_of (WeaponData_migrateWeaponType s) k = map_of s k"
  by (simp add: WeaponData_migrateWeaponType_def update_conv')

lemma weaponType_fix:
  assumes "map_of t ''weaponType'' = map_of (WeaponData_migrateWeaponType s) ''weaponType''"
  shows "WeaponData_migrateWeaponType t = t"
proof -
  have "get (WeaponData_migrateWeaponType s) ''weaponType'' \<noteq> JNull"
    by (simp add: WeaponData_migrateWeaponType_def get_update)
  then have "get t ''weaponType'' \<noteq> JNull" using assms by (simp add: get_def)
  then show ?thesis by (simp add: WeaponData_migrateWeaponType_def)
qed

lemma weapon_steps_idem:
  assumes "WeaponData_migrateData Inr s = Inr t"
  shows "WeaponData_migrateData Inr t = Inr t"
proof -
  obtain p where p: "WeaponData_migratePropertiesData s = Inr p"
    and t: "t = WeaponData_migrateWeaponType (WeaponData_migrateProficient p)"
    using assms by (cases "WeaponData_migratePropertiesData s") (simp_all add: WeaponData_migrateData_def)
  have "map_of t ''properties'' = map_of p ''properties''"
    by (simp add: t weaponType_other weapon_proficient_other)
  with p have 1: "WeaponData_migratePropertiesData t = Inr t" by (rule properties_fix)
  have "map_of t ''proficient'' = map_of (WeaponData_migrateProficient p) ''proficient''"
    by (simp add: t weaponType_other)
  then have 2: "WeaponData_migrateProficient t = t" by (rule weapon_proficient_fix)
  have 3: "WeaponData_migrateWeaponType t = t"
    by (rule weaponType_fix [of _ "WeaponData_migrateProficient p"]) (simp add: t)
  show ?thesis by (simp add: WeaponData_migrateData_def 1 2 3)
qed


lemma armor_type_result: "get (migrate_armor_type a) ''type'' \<noteq> JStr ''bonus''"
  by (simp add: migrate_armor_type_def get_update)

lemma armor_type_fix: "get b ''type'' \<noteq> JStr ''bonus'' \<Longrightarrow> migrate_armor_type b = b"
  by (simp add: migrate_armor_type_def)

lemma armor_dex_other: "k \<noteq> ''dex'' \<Longrightarrow> get (migrate_armor_dex StringToNumber b) k = get b k"
  by (simp add: migrate_armor_dex_def Let_def get_update)

lemma armor_dex_result:
  "typeof (get (migrate_armor_dex StringToNumber b) ''dex'') = ''string'' \<Longrightarrow>
   get (migrate_armor_dex StringToNumber b) ''dex'' \<noteq> JStr [] \<and> \<not> Number_isNumeric StringToNumber (get (migrate_armor_dex StringToNumber b) ''dex'')"
  by (simp add: migrate_armor_dex_def Let_def get_update split: if_splits)

lemma armor_dex_fix:
  "(typeof (get b ''dex'') = ''string'' \<Longrightarrow> get b ''dex'' \<noteq> JStr [] \<and> \<not> Number_isNumeric StringToNumber (get b ''dex''))
   \<Longrightarrow> migrate_armor_dex StringToNumber b = b"
  by (simp add: migrate_armor_dex_def Let_def)

lemma armor_object_idem:
  "migrate_armor_dex StringToNumber (migrate_armor_type (migrate_armor_dex StringToNumber (migrate_armor_type a)))
     = migrate_armor_dex StringToNumber (migrate_armor_type a)"
proof -
  let ?b = "migrate_armor_dex StringToNumber (migrate_armor_type a)"
  have "get ?b ''type'' \<noteq> JStr ''bonus''"
    by (simp add: armor_dex_other armor_type_result)
  then have "migrate_armor_type ?b = ?b" by (rule armor_type_fix)
  moreover have "migrate_armor_dex StringToNumber ?b = ?b"
    by (rule armor_dex_fix) (rule armor_dex_result)
  ultimately show ?thesis by simp
qed

lemma armor_result:
  "map_of (EquipmentData_migrateArmor StringToNumber s) ''armor'' = None
   \<or> (\<exists>a. map_of (EquipmentData_migrateArmor StringToNumber s) ''armor'' = Some (JObj (migrate_armor_dex StringToNumber (migrate_armor_type a))))
   \<or> (\<exists>v. map_of (EquipmentData_migrateArmor StringToNumber s) ''armor'' = Some v \<and> \<not> nullish v \<and> (\<forall>a. v \<noteq> JObj a))"
proof (cases "map_of s ''armor''")
  case None
  then show ?thesis by (simp add: EquipmentData_migrateArmor_def has_key_def)
next
  case (Some v)
  show ?thesis
  proof (cases "nullish v")
    case True
    have "migrate_armor_type [] = []" by (simp add: migrate_armor_type_def get_def)
    then have "map_of (EquipmentData_migrateArmor StringToNumber s) ''armor'' = Some (JObj (migrate_armor_dex StringToNumber (migrate_armor_type [])))"
      using Some True by (simp add: EquipmentData_migrateArmor_def has_key_def get_def update_conv')
    then show ?thesis by blast
  next
    case False
    show ?thesis
    proof (cases v)
      case (JObj a)
      then have "map_of (EquipmentData_migrateArmor StringToNumber s) ''armor'' = Some (JObj (migrate_armor_dex StringToNumber (migrate_armor_type a)))"
        using Some by (simp add: EquipmentData_migrateArmor_def has_key_def get_def update_conv')
      then show ?thesis by blast
    qed (use Some False in \<open>simp_all add: EquipmentData_migrateArmor_def has_key_def get_def\<close>)
  qed
qed

lemma armor_fix:
  assumes "map_of t ''armor'' = map_of (EquipmentData_migrateArmor StringToNumber s) ''armor''"
  shows "EquipmentData_migrateArmor StringToNumber t = t"
  using armor_result [of StringToNumber s]
proof (elim disjE exE conjE)
  assume "map_of (EquipmentData_migrateArmor StringToNumber s) ''armor'' = None"
  then show ?thesis using assms by (simp add: EquipmentData_migrateArmor_def has_key_def)
next
  fix a
  assume "map_of (EquipmentData_migrateArmor StringToNumber s) ''armor'' = Some (JObj (migrate_armor_dex StringToNumber (migrate_armor_type a)))"
  then have t: "map_of t ''armor'' = Some (JObj (migrate_armor_dex StringToNumber (migrate_armor_type a)))"
    using assms by simp
  then have "AList.update ''armor'' (JObj (migrate_armor_dex StringToNumber (migrate_armor_type a))) t = t"
    by (rule update_triv)
  then show ?thesis using t
    by (simp add: EquipmentData_migrateArmor_def has_key_def get_def armor_object_idem)
next
  fix v
  assume "map_of (EquipmentData_migrateArmor StringToNumber s) ''armor'' = Some v" "\<not> nullish v" "\<forall>a. v \<noteq> JObj a"
  then show ?thesis using assms
    by (cases v) (simp_all add: EquipmentData_migrateArmor_def has_key_def get_def)
qed

lemma armor_other: "k \<noteq> ''armor'' \<Longrightarrow> map_of (EquipmentData_migrateArmor StringToNumber s) k = map_of s k"
  by (cases "get (if nullish (get s ''armor'') then AList.update ''armor'' (JObj []) s else s) ''armor''")
     (simp_all add: EquipmentData_migrateArmor_def Let_def update_conv')

lemma strength_other: "k \<noteq> ''strength'' \<Longrightarrow> map_of (EquipmentData_migrateStrength StringToNumber s) k = map_of s k"
  by (simp add: EquipmentData_migrateStrength_def Let_def update_conv')

lemma strength_result:
  "typeof (get (EquipmentData_migrateStrength StringToNumber s) ''strength'') = ''string'' \<Longrightarrow>
   get (EquipmentData_migrateStrength StringToNumber s) ''strength'' \<noteq> JStr []
   \<and> \<not> Number_isNumeric StringToNumber (get (EquipmentData_migrateStrength StringToNumber s) ''strength'')"
  by (simp add: EquipmentData_migrateStrength_def Let_def get_update Number_isNumeric_def split: if_splits)

lemma strength_fix:
  assumes "map_of t ''strength'' = map_of (EquipmentData_migrateStrength StringToNumber s) ''strength''"
  shows "EquipmentData_migrateStrength StringToNumber t = t"
proof -
  have "get t ''strength'' = get (EquipmentData_migrateStrength StringToNumber s) ''strength''"
    using assms by (simp add: get_def)
  then have "typeof (get t ''strength'') = ''string'' \<Longrightarrow>
      get t ''strength'' \<noteq> JStr [] \<and> \<not> Number_isNumeric StringToNumber (get t ''strength'')"
    using strength_result [of StringToNumber s] by simp
  then show ?thesis by (auto simp add: EquipmentData_migrateStrength_def Let_def)
qed

lemma equipment_proficient_other:
  "k \<noteq> ''proficient'' \<Longrightarrow> map_of (EquipmentData_migrateProficient s) k = map_of s k"
  by (cases "get s ''proficient''") (simp_all add: EquipmentData_migrateProficient_def update_conv')

lemma equipment_proficient_fix:
  assumes "map_of t ''proficient'' = map_of (EquipmentData_migrateProficient s) ''proficient''"
  shows "EquipmentData_migrateProficient t = t"
proof -
  have "typeof (get (EquipmentData_migrateProficient s) ''proficient'') \<noteq> ''boolean''"
    by (cases "get s ''proficient''") (simp_all add: EquipmentData_migrateProficient_def get_update)
  then have "typeof (get t ''proficient'') \<noteq> ''boolean''" using assms by (simp add: get_def)
  then show ?thesis
    by (cases "get t ''proficient''") (simp_all add: EquipmentData_migrateProficient_def)
qed

lemma equipment_steps_idem:
  assumes "EquipmentData_migrateData StringToNumber Inr s = Inr t"
  shows "EquipmentData_migrateData StringToNumber Inr t = Inr t"
proof -
  have t: "t = EquipmentData_migrateProficient (EquipmentData_migrateStrength StringToNumber (EquipmentData_migrateArmor StringToNumber s))"
    using assms by (simp add: EquipmentData_migrateData_def)
  have "map_of t ''armor'' = map_of (EquipmentData_migrateArmor StringToNumber s) ''armor''"
    by (simp add: t equipment_proficient_other strength_other)
  then have 1: "EquipmentData_migrateArmor StringToNumber t = t" by (rule armor_fix)
  have "map_of t ''strength'' = map_of (EquipmentData_migrateStrength StringToNumber (EquipmentData_migrateArmor StringToNumber s)) ''strength''"
    by (simp add: t equipment_proficient_other)
  then have 2: "EquipmentData_migrateStrength StringToNumber t = t" by (rule strength_fix)
  have 3: "EquipmentData_migrateProficient t = t"
    by (rule equipment_proficient_fix [of _ "EquipmentData_migrateStrength StringToNumber (EquipmentData_migrateArmor StringToNumber s)"])
       (simp add: t)
  show ?thesis by (simp add: EquipmentData_migrateData_def 1 2 3)
qed

lemma tool_ability_fix: "\<not> isArray (get t ''ability'') \<Longrightarrow> ToolData_migrateAbility t = t"
  by (cases "get t ''ability''") (simp_all add: ToolData_migrateAbility_def)


lemma tool_ability_still_array:
  "isArray (get (ToolData_migrateAbility s) ''ability'')
     \<longleftrightarrow> (\<exists>ys xs. get s ''ability'' = JArr (Some (JArr ys) # xs))"
proof (cases "get s ''ability''")
  case (JArr xs)
  then show ?thesis
    by (cases xs rule: first_element.cases)
       (auto simp: ToolData_migrateAbility_def get_update elim: isArray.elims)
qed (simp_all add: ToolData_migrateAbility_def)

subsection \<open>The migration of a kind\<close>

lemma migrate_after_super:
  "migrate StringToNumber super_migrateData k r = ebind (super_migrateData r) (migrate StringToNumber Inr k)"
  by (cases k; cases "super_migrateData r")
     (simp_all add: WeaponData_migrateData_def EquipmentData_migrateData_def
        ToolData_migrateData_def ConsumableData_migrateData_def)

lemma steps_idem:
  assumes "migrate StringToNumber Inr k s = Inr t" and "k = Tool \<Longrightarrow> \<not> isArray (get t ''ability'')"
  shows "migrate StringToNumber Inr k t = Inr t"
proof (cases k)
  case Weapon
  then show ?thesis using assms(1) by (simp add: weapon_steps_idem)
next
  case Equipment
  then show ?thesis using assms(1) by (simp add: equipment_steps_idem)
next
  case Tool
  then show ?thesis using assms(2) by (simp add: ToolData_migrateData_def tool_ability_fix)
next
  case Consumable
  then show ?thesis by (simp add: ConsumableData_migrateData_def)
qed


text \<open>
  Claim C1, amended. Migrating again changes nothing, provided that the inherited
  migration leaves the migrated record as it is and, for a tool, that the \<open>ability\<close> of
  the migrated record is no longer an array (the raw \<open>ability\<close> was not an array whose
  first element is again an array): if \<open>migrate k r\<close> completes with \<open>t\<close>, then
  \<open>migrate k t\<close> completes with \<open>t\<close>, whatever the conversion of strings to
  numbers is. For a consumable, which has no steps of its own, this is the assumption on
  the inherited migration.
\<close>

theorem migrate_idempotent:
  assumes "migrate StringToNumber super_migrateData k r = Inr t"
    and "super_migrateData t = Inr t"
    and "k = Tool \<Longrightarrow> \<not> isArray (get t ''ability'')"
  shows "migrate StringToNumber super_migrateData k t = Inr t"
proof -
  have "ebind (super_migrateData r) (migrate StringToNumber Inr k) = Inr t"
    using assms(1) by (subst (asm) migrate_after_super)
  then obtain s where "super_migrateData r = Inr s" and "migrate StringToNumber Inr k s = Inr t"
    by (cases "super_migrateData r") simp_all
  then have "migrate StringToNumber Inr k t = Inr t" using assms(3) by (intro steps_idem)
  moreover have "migrate StringToNumber super_migrateData k t = ebind (super_migrateData t) (migrate StringToNumber Inr k)"
    by (rule migrate_after_super)
  ultimately show ?thesis using assms(2) by simp
qed

text \<open>
  The theorem at a weapon record (the properties \<open>{fin: true, old: "legacy"}\<close>, a boolean
  \<open>proficient\<close> and a \<open>null\<close> weapon type) and at a tool record whose ability is an
  array of strings, with an inherited migration that does nothing.
\<close>

theorem migrate_idempotent_witness:
  "migrate example_Number Inr Weapon [(''properties'', JObj [(''fin'', JBool True), (''old'', JStr ''legacy'')]),
                       (''proficient'', JBool True), (''weaponType'', JNull)]
     = Inr [(''properties'', JObj [(''fin'', JBool True)]),
            (''proficient'', JNum (Fin 1)), (''weaponType'', JStr ''simpleM'')]
   \<and> migrate example_Number Inr Weapon [(''properties'', JObj [(''fin'', JBool True)]),
            (''proficient'', JNum (Fin 1)), (''weaponType'', JStr ''simpleM'')]
     = Inr [(''properties'', JObj [(''fin'', JBool True)]),
            (''proficient'', JNum (Fin 1)), (''weaponType'', JStr ''simpleM'')]
   \<and> migrate example_Number Inr Tool [(''ability'', JArr [Some (JStr ''dex''), Some (JStr ''str'')])]
     = Inr [(''ability'', JStr ''dex'')]
   \<and> \<not> isArray (get [(''ability'', JStr ''dex'')] ''ability'')
   \<and> migrate example_Number Inr Tool [(''ability'', JStr ''dex'')] = Inr [(''ability'', JStr ''dex'')]"
proof -
  have weapon: "migrate example_Number Inr Weapon [(''properties'', JObj [(''fin'', JBool True), (''old'', JStr ''legacy'')]),
                       (''proficient'', JBool True), (''weaponType'', JNull)]
     = Inr [(''properties'', JObj [(''fin'', JBool True)]),
            (''proficient'', JNum (Fin 1)), (''weaponType'', JStr ''simpleM'')]"
    by (simp add: WeaponData_migrateData_def WeaponData_migratePropertiesData_def
        WeaponData_migrateProficient_def WeaponData_migrateWeaponType_def BooleanToNumber_def
        get_def AList.delete_eq)
  have tool: "migrate example_Number Inr Tool [(''ability'', JArr [Some (JStr ''dex''), Some (JStr ''str'')])]
     = Inr [(''ability'', JStr ''dex'')]"
    by (simp add: ToolData_migrateData_def ToolData_migrateAbility_def get_def)
  have ability: "\<not> isArray (get [(''ability'', JStr ''dex'')] ''ability'')"
    by (simp add: get_def)
  show ?thesis
    using weapon tool ability migrate_idempotent [OF weapon] migrate_idempotent [OF tool]
    by simp
qed

text \<open>
  The claim as stated fails for a tool: the ability \<open>[["str"]]\<close> becomes \<open>["str"]\<close>,
  and migrating that record again gives \<open>"str"\<close>.
\<close>

theorem tool_migration_not_idempotent:
  "ebind (migrate example_Number Inr Tool [(''ability'', JArr [Some (JArr [Some (JStr ''str'')])])]) (migrate example_Number Inr Tool)
     \<noteq> migrate example_Number Inr Tool [(''ability'', JArr [Some (JArr [Some (JStr ''str'')])])]"
  by (simp add: ToolData_migrateData_def ToolData_migrateAbility_def get_def)




subsection \<open>The numeric fields of an equipment record\<close>

lemma armor_type_other: "k \<noteq> ''type'' \<Longrightarrow> get (migrate_armor_type a) k = get a k"
  by (simp add: migrate_armor_type_def get_update)

lemma isNumeric_string: "x \<noteq> [] \<Longrightarrow> Number_isNumeric StringToNumber (JStr x) \<longleftrightarrow> StringToNumber x \<noteq> NaN"
  by (simp add: Number_isNumeric_def)

lemma armor_dex_spec: "get (migrate_armor_dex StringToNumber b) ''dex'' = spec_numeric_field StringToNumber (get b ''dex'')"
  by (cases "get b ''dex''")
     (simp_all add: migrate_armor_dex_def spec_numeric_field_def get_update isNumeric_string)

lemma strength_spec:
  "get (EquipmentData_migrateStrength StringToNumber s) ''strength'' = spec_numeric_field StringToNumber (get s ''strength'')"
  by (cases "get s ''strength''")
     (simp_all add: EquipmentData_migrateStrength_def spec_numeric_field_def get_update
        isNumeric_string Number_isNumeric_def)

lemma armor_spec:
  "js_prop (get (EquipmentData_migrateArmor StringToNumber s) ''armor'') ''dex''
     = spec_numeric_field StringToNumber (js_prop (get s ''armor'') ''dex'')"
proof (cases "map_of s ''armor''")
  case None
  then show ?thesis
    by (simp add: EquipmentData_migrateArmor_def has_key_def get_def spec_numeric_field_def)
next
  case (Some v)
  show ?thesis
  proof (cases v)
    case (JObj a)
    have armor: "get s ''armor'' = JObj a" using Some JObj by (simp add: get_def)
    then have "EquipmentData_migrateArmor StringToNumber s
        = AList.update ''armor'' (JObj (migrate_armor_dex StringToNumber (migrate_armor_type a))) s"
      using Some by (simp add: EquipmentData_migrateArmor_def has_key_def)
    then have "js_prop (get (EquipmentData_migrateArmor StringToNumber s) ''armor'') ''dex''
        = get (migrate_armor_dex StringToNumber (migrate_armor_type a)) ''dex''"
      by (simp add: get_update)
    also have "\<dots> = spec_numeric_field StringToNumber (get a ''dex'')"
      by (simp add: armor_dex_spec armor_type_other)
    finally show ?thesis using armor by simp
  qed (use Some in \<open>simp_all add: EquipmentData_migrateArmor_def has_key_def get_def
        update_conv' spec_numeric_field_def migrate_armor_dex_def migrate_armor_type_def\<close>)
qed

lemma spec_numeric_field_string:
  "typeof (spec_numeric_field StringToNumber v) = ''string'' \<longleftrightarrow> (\<exists>x. v = JStr x \<and> x \<noteq> [] \<and> StringToNumber x = NaN)"
  by (cases v) (simp_all add: spec_numeric_field_def)

text \<open>
  Claim C6, amended. Whatever the conversion of strings to numbers is: once the inherited
  migration has completed with \<open>s\<close>, the equipment migration completes, and it makes
  of the strength requirement and of the armor dexterity cap what
  \<open>spec_numeric_field\<close> says: the empty string becomes \<open>null\<close>, a numeric-looking
  string (one that \<open>Number.isNumeric\<close> accepts: its conversion is not NaN) becomes the
  number it converts to, and any other value is left as it is. So after the migration
  either field is a string exactly when it was a non-empty string that is not
  numeric-looking.
\<close>

theorem equipment_numeric_fields:
  assumes "super_migrateData r = Inr s"
  shows "\<exists>t. EquipmentData_migrateData StringToNumber super_migrateData r = Inr t
           \<and> get t ''strength'' = spec_numeric_field StringToNumber (get s ''strength'')
           \<and> js_prop (get t ''armor'') ''dex'' = spec_numeric_field StringToNumber (js_prop (get s ''armor'') ''dex'')
           \<and> (typeof (get t ''strength'') = ''string''
                \<longleftrightarrow> (\<exists>x. get s ''strength'' = JStr x \<and> x \<noteq> [] \<and> StringToNumber x = NaN))
           \<and> (typeof (js_prop (get t ''armor'') ''dex'') = ''string''
                \<longleftrightarrow> (\<exists>x. js_prop (get s ''armor'') ''dex'' = JStr x \<and> x \<noteq> [] \<and> StringToNumber x = NaN))"
proof -
  let ?t = "EquipmentData_migrateProficient (EquipmentData_migrateStrength StringToNumber (EquipmentData_migrateArmor StringToNumber s))"
  have t: "EquipmentData_migrateData StringToNumber super_migrateData r = Inr ?t"
    using assms by (simp add: EquipmentData_migrateData_def)
  have "get ?t ''strength'' = get (EquipmentData_migrateStrength StringToNumber (EquipmentData_migrateArmor StringToNumber s)) ''strength''"
    by (simp add: get_def equipment_proficient_other)
  also have "\<dots> = spec_numeric_field StringToNumber (get (EquipmentData_migrateArmor StringToNumber s) ''strength'')"
    by (rule strength_spec)
  also have "get (EquipmentData_migrateArmor StringToNumber s) ''strength'' = get s ''strength''"
    by (simp add: get_def armor_other)
  finally have strength: "get ?t ''strength'' = spec_numeric_field StringToNumber (get s ''strength'')" .
  have "get ?t ''armor'' = get (EquipmentData_migrateArmor StringToNumber s) ''armor''"
    by (simp add: get_def equipment_proficient_other strength_other)
  then have dex: "js_prop (get ?t ''armor'') ''dex'' = spec_numeric_field StringToNumber (js_prop (get s ''armor'') ''dex'')"
    by (simp add: armor_spec)
  show ?thesis
    using t strength dex by (simp add: spec_numeric_field_string)
qed

text \<open>
  The theorem at a record with the empty strength and the dexterity cap \<open>"2"\<close>.
\<close>

theorem equipment_numeric_fields_witness:
  "\<exists>t. EquipmentData_migrateData example_Number Inr
          [(''armor'', JObj [(''type'', JStr ''bonus''), (''dex'', JStr ''2'')]), (''strength'', JStr [])]
        = Inr t
      \<and> get t ''strength'' = JNull
      \<and> js_prop (get t ''armor'') ''dex'' = JNum (Fin 2)"
proof -
  have "example_Number ''2'' = Fin 2"
    by (simp add: example_Number_def)
  moreover obtain t where "EquipmentData_migrateData example_Number Inr
          [(''armor'', JObj [(''type'', JStr ''bonus''), (''dex'', JStr ''2'')]), (''strength'', JStr [])]
        = Inr t"
      and "get t ''strength''
        = spec_numeric_field example_Number (get [(''armor'', JObj [(''type'', JStr ''bonus''), (''dex'', JStr ''2'')]),
            (''strength'', JStr [])] ''strength'')"
      and "js_prop (get t ''armor'') ''dex''
        = spec_numeric_field example_Number (js_prop (get [(''armor'', JObj [(''type'', JStr ''bonus''), (''dex'', JStr ''2'')]),
            (''strength'', JStr [])] ''armor'') ''dex'')"
    using equipment_numeric_fields [of Inr
        "[(''armor'', JObj [(''type'', JStr ''bonus''), (''dex'', JStr ''2'')]), (''strength'', JStr [])]"
        _ example_Number]
    by blast
  ultimately show ?thesis
    by (intro exI [of _ t]) (simp add: get_def spec_numeric_field_def)
qed

text \<open>
  The claim as stated fails: the dexterity cap \<open>"max 2"\<close> and the strength
  \<open>"abc"\<close> are strings after the migration, as before.
\<close>

theorem equipment_strings_remain:
  "EquipmentData_migrateData example_Number Inr
     [(''armor'', JObj [(''type'', JStr ''light''), (''dex'', JStr ''max 2'')]), (''strength'', JStr ''abc'')]
   = Inr [(''armor'', JObj [(''type'', JStr ''light''), (''dex'', JStr ''max 2'')]), (''strength'', JStr ''abc'')]"
  by (simp add: EquipmentData_migrateData_def EquipmentData_migrateArmor_def
      EquipmentData_migrateStrength_def EquipmentData_migrateProficient_def
      migrate_armor_type_def migrate_armor_dex_def has_key_def get_def Number_isNumeric_def
      example_Number_def)

section \<open>Properties of the derived attributes\<close>

text \<open>
  Claim C3. A weapon, an equipment or a tool item whose \<open>proficient\<close> field is a
  finite number has that value as its proficiency multiplier, whatever its parent document
  and owner are (also with none). These are the kinds whose schema declares the field; a
  consumable has none.
\<close>

theorem explicit_override_wins:
  "(Number_isFinite (proficient w) \<longrightarrow> WeaponData_proficiencyMultiplier cfg w = Inr (proficient w))
   \<and> (Number_isFinite (proficient e) \<longrightarrow> EquipmentData_proficiencyMultiplier cfg e = Inr (proficient e))
   \<and> (Number_isFinite (proficient t) \<longrightarrow> ToolData_proficiencyMultiplier t = Inr (proficient t))"
  by (simp add: WeaponData_proficiencyMultiplier_def EquipmentData_proficiencyMultiplier_def
      ToolData_proficiencyMultiplier_def)

text \<open>
  The theorem at a weapon without a parent document, an equipment of a non-player
  character and a tool of a player character, with the overrides 0, 0 and 0.5.
\<close>

theorem explicit_override_wins_witness:
  "Number_isFinite (JNum (Fin 0))
   \<and> WeaponData_proficiencyMultiplier example_config
        \<lparr>parent = None, baseItem = ''dagger'', proficient = JNum (Fin 0),
         weaponType = ''natural'', properties = Map.empty\<rparr> = Inr (JNum (Fin 0))
   \<and> EquipmentData_proficiencyMultiplier example_config
        \<lparr>parent = owned_by (example_actor ''npc''), baseItem = ''leather'', proficient = JNum (Fin 0),
         armor_type = ''light'', stealth = False\<rparr> = Inr (JNum (Fin 0))
   \<and> Number_isFinite (JNum (Fin (1/2)))
   \<and> ToolData_proficiencyMultiplier
        \<lparr>parent = owned_by (example_actor ''character''), baseItem = ''thief'', proficient = JNum (Fin (1/2)),
         toolType = ''art'', ability = ''dex''\<rparr> = Inr (JNum (Fin (1/2)))"
  using explicit_override_wins [of
      "\<lparr>parent = None, baseItem = ''dagger'', proficient = JNum (Fin 0),
         weaponType = ''natural'', properties = Map.empty\<rparr>" example_config
      "\<lparr>parent = owned_by (example_actor ''npc''), baseItem = ''leather'', proficient = JNum (Fin 0),
         armor_type = ''light'', stealth = False\<rparr>"
      "\<lparr>parent = owned_by (example_actor ''character''), baseItem = ''thief'', proficient = JNum (Fin (1/2)),
         toolType = ''art'', ability = ''dex''\<rparr>"]
  by simp

text \<open>
  Claim C4, amended. For an item document whose owner is of the kind \<open>npc\<close>, a weapon,
  an equipment or a tool without a finite override has the multiplier 1. The multiplier of
  a consumable does not look at the kind of its owner: whatever the owner is, it is 1 if
  the owner carries the flag \<open>tavernBrawlerFeat\<close> and 0 otherwise, and it is 0 for a
  consumable without a parent document or without an owner.
\<close>

theorem npc_proficiency:
  "(actor item = Some owner \<and> actor_type owner = ''npc'' \<longrightarrow>
      (\<not> Number_isFinite (proficient w) \<and> parent w = Some item
         \<longrightarrow> WeaponData_proficiencyMultiplier cfg w = Inr (JNum (Fin 1)))
      \<and> (\<not> Number_isFinite (proficient e) \<and> parent e = Some item
         \<longrightarrow> EquipmentData_proficiencyMultiplier cfg e = Inr (JNum (Fin 1)))
      \<and> (\<not> Number_isFinite (proficient t) \<and> parent t = Some item
         \<longrightarrow> ToolData_proficiencyMultiplier t = Inr (JNum (Fin 1))))
   \<and> (parent c = Some holder_item \<and> actor holder_item = Some holder
         \<longrightarrow> ConsumableData_proficiencyMultiplier c
             = (if truthy (tavernBrawlerFeat holder) then JNum (Fin 1) else JNum (Fin 0)))
   \<and> (parent c = None \<or> (\<exists>unowned. parent c = Some unowned \<and> actor unowned = None)
         \<longrightarrow> ConsumableData_proficiencyMultiplier c = JNum (Fin 0))"
  by (auto simp add: WeaponData_proficiencyMultiplier_def EquipmentData_proficiencyMultiplier_def
      ToolData_proficiencyMultiplier_def ConsumableData_proficiencyMultiplier_def parent_actor_def
      split: option.splits)

text \<open>
  The theorem at a weapon, an equipment and a tool of a non-player character, and at
  three consumables: of a non-player character that carries the flag, of a player
  character that does not, and without a parent document.
\<close>

theorem npc_proficiency_witness:
  "WeaponData_proficiencyMultiplier example_config
     \<lparr>parent = owned_by (example_actor ''npc''), baseItem = ''longsword'', proficient = JNull,
      weaponType = ''martialM'', properties = Map.empty\<rparr> = Inr (JNum (Fin 1))
   \<and> EquipmentData_proficiencyMultiplier example_config
     \<lparr>parent = owned_by (example_actor ''npc''), baseItem = ''plate'', proficient = JNull,
      armor_type = ''heavy'', stealth = True\<rparr> = Inr (JNum (Fin 1))
   \<and> ToolData_proficiencyMultiplier
     \<lparr>parent = owned_by (example_actor ''npc''), baseItem = ''lute'', proficient = JNull,
      toolType = ''music'', ability = ''dex''\<rparr> = Inr (JNum (Fin 1))
   \<and> ConsumableData_proficiencyMultiplier
     \<lparr>parent = owned_by (example_actor ''npc''\<lparr>tavernBrawlerFeat := JBool True\<rparr>),
      consumableType = ''potion'', hasLimitedUses = False, uses_value = JNull, uses_max = JNull\<rparr>
       = JNum (Fin 1)
   \<and> ConsumableData_proficiencyMultiplier
     \<lparr>parent = owned_by (example_actor ''character''),
      consumableType = ''potion'', hasLimitedUses = False, uses_value = JNull, uses_max = JNull\<rparr>
       = JNum (Fin 0)
   \<and> ConsumableData_proficiencyMultiplier
     \<lparr>parent = None,
      consumableType = ''potion'', hasLimitedUses = False, uses_value = JNull, uses_max = JNull\<rparr>
       = JNum (Fin 0)"
  using npc_proficiency [where cfg = example_config
        and item = "\<lparr>actor = Some (example_actor ''npc''), labels = None\<rparr>"
        and owner = "example_actor ''npc''"
        and w = "\<lparr>parent = owned_by (example_actor ''npc''), baseItem = ''longsword'', proficient = JNull,
          weaponType = ''martialM'', properties = Map.empty\<rparr>"
        and e = "\<lparr>parent = owned_by (example_actor ''npc''), baseItem = ''plate'', proficient = JNull,
          armor_type = ''heavy'', stealth = True\<rparr>"
        and t = "\<lparr>parent = owned_by (example_actor ''npc''), baseItem = ''lute'', proficient = JNull,
          toolType = ''music'', ability = ''dex''\<rparr>"
        and holder_item = "\<lparr>actor = Some (example_actor ''npc''\<lparr>tavernBrawlerFeat := JBool True\<rparr>), labels = None\<rparr>"
        and holder = "example_actor ''npc''\<lparr>tavernBrawlerFeat := JBool True\<rparr>"
        and c = "\<lparr>parent = owned_by (example_actor ''npc''\<lparr>tavernBrawlerFeat := JBool True\<rparr>),
          consumableType = ''potion'', hasLimitedUses = False, uses_value = JNull, uses_max = JNull\<rparr>"]
    npc_proficiency [where holder_item = "\<lparr>actor = Some (example_actor ''character''), labels = None\<rparr>"
        and holder = "example_actor ''character''"
        and c = "\<lparr>parent = owned_by (example_actor ''character''),
          consumableType = ''potion'', hasLimitedUses = False, uses_value = JNull, uses_max = JNull\<rparr>"]
    npc_proficiency [where c = "\<lparr>parent = None,
          consumableType = ''potion'', hasLimitedUses = False, uses_value = JNull, uses_max = JNull\<rparr>"]
  by (simp add: owned_by_def example_actor_def)

text \<open>
  The claim as stated fails for a consumable: owned by a non-player character without the
  flag, its multiplier is 0.
\<close>

theorem npc_consumable_not_proficient:
  "ConsumableData_proficiencyMultiplier
     \<lparr>parent = owned_by (example_actor ''npc''), consumableType = ''potion'',
      hasLimitedUses = False, uses_value = JNull, uses_max = JNull\<rparr> = JNum (Fin 0)"
  by (simp add: ConsumableData_proficiencyMultiplier_def parent_actor_def owned_by_def example_actor_def)

text \<open>
  Claim C5, amended. For an item without a finite override whose owner is not of the kind
  \<open>npc\<close>: the multiplier of a weapon is 1 if its type is \<open>natural\<close>, or its type is
  \<open>improv\<close> and the owner carries the flag \<open>tavernBrawlerFeat\<close>, or the weapon
  proficiencies of the owner contain what the table gives for the type or the base item,
  and 0 otherwise; the multiplier of an equipment is 1 if the table gives \<open>true\<close> for
  the armor type, or the armor proficiencies of the owner contain what the table gives for
  the type or the base item, and 0 otherwise; the multiplier of a tool is the larger of
  the owner's proficiency values for the base item and for the tool type, each 0 when
  absent.
\<close>

theorem character_proficiency:
  assumes "actor item = Some owner" and "actor_type owner \<noteq> ''npc''"
  shows "(\<not> Number_isFinite (proficient w) \<and> parent w = Some item
            \<longrightarrow> WeaponData_proficiencyMultiplier cfg w
                = Inr (JNum (if weaponType w = ''natural''
                                \<or> (weaponType w = ''improv'' \<and> truthy (tavernBrawlerFeat owner))
                                \<or> weaponProficienciesMap cfg (weaponType w)
                                     \<in> (case weaponProf owner of None \<Rightarrow> {} | Some profs \<Rightarrow> profs)
                                \<or> JStr (baseItem w)
                                     \<in> (case weaponProf owner of None \<Rightarrow> {} | Some profs \<Rightarrow> profs)
                             then Fin 1 else Fin 0)))
       \<and> (\<not> Number_isFinite (proficient e) \<and> parent e = Some item
            \<longrightarrow> EquipmentData_proficiencyMultiplier cfg e
                = Inr (JNum (if armorProficienciesMap cfg (armor_type e) = JBool True
                                \<or> armorProficienciesMap cfg (armor_type e)
                                     \<in> (case armorProf owner of None \<Rightarrow> {} | Some profs \<Rightarrow> profs)
                                \<or> JStr (baseItem e)
                                     \<in> (case armorProf owner of None \<Rightarrow> {} | Some profs \<Rightarrow> profs)
                             then Fin 1 else Fin 0)))
       \<and> (\<not> Number_isFinite (proficient t) \<and> parent t = Some item
            \<longrightarrow> ToolData_proficiencyMultiplier t
                = Inr (JNum (Math_max
                    (or_zero (Option.bind (Option.bind (tools owner) (\<lambda>entries. entries (baseItem t))) id))
                    (or_zero (Option.bind (Option.bind (tools owner) (\<lambda>entries. entries (toolType t))) id)))))"
  using assms
  by (simp add: WeaponData_proficiencyMultiplier_def EquipmentData_proficiencyMultiplier_def
      ToolData_proficiencyMultiplier_def Let_def BooleanToNumber_def)

text \<open>
  The theorem at two weapons, two pieces of equipment and a tool of a player character
  proficient with simple weapons, light armor and, at the level 0.5, artisan's tools.
\<close>

theorem character_proficiency_witness:
  "WeaponData_proficiencyMultiplier example_config
     \<lparr>parent = owned_by (example_actor ''character''), baseItem = ''dagger'', proficient = JNull,
      weaponType = ''simpleM'', properties = Map.empty\<rparr> = Inr (JNum (Fin 1))
   \<and> WeaponData_proficiencyMultiplier example_config
     \<lparr>parent = owned_by (example_actor ''character''), baseItem = ''longsword'', proficient = JNull,
      weaponType = ''martialM'', properties = Map.empty\<rparr> = Inr (JNum (Fin 0))
   \<and> EquipmentData_proficiencyMultiplier example_config
     \<lparr>parent = owned_by (example_actor ''character''), baseItem = ''plate'', proficient = JNull,
      armor_type = ''heavy'', stealth = True\<rparr> = Inr (JNum (Fin 0))
   \<and> EquipmentData_proficiencyMultiplier example_config
     \<lparr>parent = owned_by (example_actor ''character''), baseItem = ''robe'', proficient = JNull,
      armor_type = ''clothing'', stealth = False\<rparr> = Inr (JNum (Fin 1))
   \<and> ToolData_proficiencyMultiplier
     \<lparr>parent = owned_by (example_actor ''character''), baseItem = ''lute'', proficient = JNull,
      toolType = ''art'', ability = ''dex''\<rparr> = Inr (JNum (Fin (1 / 2)))"
proof -
  have character: "actor \<lparr>actor = Some (example_actor ''character''), labels = None\<rparr>
       = Some (example_actor ''character'')"
    "actor_type (example_actor ''character'') \<noteq> ''npc''"
    by (simp_all add: example_actor_def)
  show ?thesis
    using character_proficiency [OF character, where cfg = example_config
        and w = "\<lparr>parent = owned_by (example_actor ''character''), baseItem = ''dagger'', proficient = JNull,
          weaponType = ''simpleM'', properties = Map.empty\<rparr>"
        and e = "\<lparr>parent = owned_by (example_actor ''character''), baseItem = ''plate'', proficient = JNull,
          armor_type = ''heavy'', stealth = True\<rparr>"
        and t = "\<lparr>parent = owned_by (example_actor ''character''), baseItem = ''lute'', proficient = JNull,
          toolType = ''art'', ability = ''dex''\<rparr>"]
      character_proficiency [OF character, where cfg = example_config
        and w = "\<lparr>parent = owned_by (example_actor ''character''), baseItem = ''longsword'', proficient = JNull,
          weaponType = ''martialM'', properties = Map.empty\<rparr>"
        and e = "\<lparr>parent = owned_by (example_actor ''character''), baseItem = ''robe'', proficient = JNull,
          armor_type = ''clothing'', stealth = False\<rparr>"]
    by (simp add: owned_by_def example_actor_def example_config_def table_without_prototype_def
        or_zero_def Math_max_def)
qed

text \<open>
  The claim as stated fails: a tool of a character with expertise in the base item has the
  multiplier 2, and a natural weapon has the multiplier 1 although the proficiencies of
  the owner hold neither a tag for the type (the table has none) nor the base item.
\<close>

theorem proficiency_beyond_tags:
  "ToolData_proficiencyMultiplier
     \<lparr>parent = owned_by (example_actor ''character''), baseItem = ''thief'', proficient = JNull,
      toolType = ''art'', ability = ''dex''\<rparr> = Inr (JNum (Fin 2))
   \<and> WeaponData_proficiencyMultiplier example_config
     \<lparr>parent = owned_by (example_actor ''character''), baseItem = ''claws'', proficient = JNull,
      weaponType = ''natural'', properties = Map.empty\<rparr> = Inr (JNum (Fin 1))
   \<and> weaponProf (example_actor ''character'') = Some {JStr ''sim''}
   \<and> weaponProficienciesMap example_config ''natural'' = JUndefined"
  by (simp add: ToolData_proficiencyMultiplier_def WeaponData_proficiencyMultiplier_def owned_by_def
      example_actor_def example_config_def table_without_prototype_def or_zero_def Math_max_def
      BooleanToNumber_def)

text \<open>
  Claim C10. The attack ability of a weapon is \<open>"dex"\<close> when its type is
  \<open>simpleR\<close> or \<open>martialR\<close>; otherwise, when \<open>properties.fin\<close> is set and the
  owner has ability scores, it is \<open>"dex"\<close> if the dexterity modifier is at least the
  strength modifier and \<open>"str"\<close> if not (a missing modifier counts as 0); in every
  other case it is \<open>null\<close>.
\<close>

theorem typeAbilityMod_cases:
  "(weaponType w = ''simpleR'' \<or> weaponType w = ''martialR''
      \<longrightarrow> WeaponData_typeAbilityMod w = JStr ''dex'')
   \<and> (weaponType w \<noteq> ''simpleR'' \<and> weaponType w \<noteq> ''martialR'' \<and> properties w ''fin'' = Some True
        \<and> parent_actor w = Some owner \<and> abilities owner = Some scores
      \<longrightarrow> WeaponData_typeAbilityMod w
          = (if js_ge (or_zero (Option.bind (scores ''dex'') id)) (or_zero (Option.bind (scores ''str'') id))
             then JStr ''dex'' else JStr ''str''))
   \<and> (weaponType w \<noteq> ''simpleR'' \<and> weaponType w \<noteq> ''martialR''
        \<and> (properties w ''fin'' \<noteq> Some True \<or> Option.bind (parent_actor w) abilities = None)
      \<longrightarrow> WeaponData_typeAbilityMod w = JNull)"
  by (auto simp add: WeaponData_typeAbilityMod_def split: option.splits bool.splits)

text \<open>
  The theorem at a longbow, at a rapier of a character with the higher dexterity and of
  one with the higher strength, at a club, and at a rapier without an owner.
\<close>

theorem typeAbilityMod_cases_witness:
  "WeaponData_typeAbilityMod
     \<lparr>parent = None, baseItem = ''longbow'', proficient = JNull,
      weaponType = ''martialR'', properties = Map.empty\<rparr> = JStr ''dex''
   \<and> WeaponData_typeAbilityMod
     \<lparr>parent = owned_by (example_actor ''character''), baseItem = ''rapier'', proficient = JNull,
      weaponType = ''martialM'', properties = [''fin'' \<mapsto> True]\<rparr> = JStr ''dex''
   \<and> WeaponData_typeAbilityMod
     \<lparr>parent = owned_by (example_actor ''character''
                 \<lparr>abilities := Some [''str'' \<mapsto> Some (Fin 4), ''dex'' \<mapsto> Some (Fin 3)]\<rparr>),
      baseItem = ''rapier'', proficient = JNull,
      weaponType = ''martialM'', properties = [''fin'' \<mapsto> True]\<rparr> = JStr ''str''
   \<and> WeaponData_typeAbilityMod
     \<lparr>parent = owned_by (example_actor ''character''), baseItem = ''club'', proficient = JNull,
      weaponType = ''simpleM'', properties = [''fin'' \<mapsto> False]\<rparr> = JNull
   \<and> WeaponData_typeAbilityMod
     \<lparr>parent = Some \<lparr>actor = None, labels = None\<rparr>, baseItem = ''rapier'', proficient = JNull,
      weaponType = ''martialM'', properties = [''fin'' \<mapsto> True]\<rparr> = JNull"
  using typeAbilityMod_cases [where w =
        "\<lparr>parent = None, baseItem = ''longbow'', proficient = JNull,
          weaponType = ''martialR'', properties = Map.empty\<rparr>"]
    typeAbilityMod_cases [where owner = "example_actor ''character''"
        and scores = "[''str'' \<mapsto> Some (Fin 1), ''dex'' \<mapsto> Some (Fin 3)]"
        and w = "\<lparr>parent = owned_by (example_actor ''character''), baseItem = ''rapier'', proficient = JNull,
          weaponType = ''martialM'', properties = [''fin'' \<mapsto> True]\<rparr>"]
    typeAbilityMod_cases [where owner = "example_actor ''character''
                 \<lparr>abilities := Some [''str'' \<mapsto> Some (Fin 4), ''dex'' \<mapsto> Some (Fin 3)]\<rparr>"
        and scores = "[''str'' \<mapsto> Some (Fin 4), ''dex'' \<mapsto> Some (Fin 3)]"
        and w = "\<lparr>parent = owned_by (example_actor ''character''
                 \<lparr>abilities := Some [''str'' \<mapsto> Some (Fin 4), ''dex'' \<mapsto> Some (Fin 3)]\<rparr>),
          baseItem = ''rapier'', proficient = JNull,
          weaponType = ''martialM'', properties = [''fin'' \<mapsto> True]\<rparr>"]
    typeAbilityMod_cases [where w =
        "\<lparr>parent = owned_by (example_actor ''character''), baseItem = ''club'', proficient = JNull,
          weaponType = ''simpleM'', properties = [''fin'' \<mapsto> False]\<rparr>"]
    typeAbilityMod_cases [where w =
        "\<lparr>parent = Some \<lparr>actor = None, labels = None\<rparr>, baseItem = ''rapier'', proficient = JNull,
          weaponType = ''martialM'', properties = [''fin'' \<mapsto> True]\<rparr>"]
  by (simp add: owned_by_def example_actor_def parent_actor_def or_zero_def)

text \<open>
  Claim C7, amended. The chat properties are a list of fixed length in a fixed order and
  nothing is left out of it. For an equipment with a parent document: what the table of
  equipment types gives for the armor type, the armor label of the parent or \<open>null\<close>
  when it has none, and the stealth annotation or \<open>null\<close> when \<open>stealth\<close> is not
  set; without a parent document the getter throws. For a consumable: what the table of
  consumable types gives for the type, and the charges, \<open>value/max\<close> followed by the
  localized word, or \<open>null\<close> without limited uses. For a tool: the label that the table
  of abilities gives for the ability. What a table gives is passed on as it is, also when
  it is \<open>undefined\<close> or no label at all.
\<close>

theorem chatProperties_placeholders:
  "(parent e = Some item \<longrightarrow>
      EquipmentData_chatProperties cfg e
        = Inr [equipmentTypes cfg (armor_type e),
               (case Option.bind (labels item) (\<lambda>l. l ''armor'') of None \<Rightarrow> JNull | Some l \<Rightarrow> JStr l),
               (if stealth e then JStr (localize cfg ''DND5E.StealthDisadvantage'') else JNull)])
   \<and> (parent e = None \<longrightarrow> EquipmentData_chatProperties cfg e = Inl TypeError)
   \<and> ConsumableData_chatProperties cfg c
        = [consumableTypes cfg (consumableType c),
           (if hasLimitedUses c
            then JStr (toString cfg (uses_value c) @ ''/'' @ toString cfg (uses_max c)
                       @ '' '' @ localize cfg ''DND5E.Charges'')
            else JNull)]
   \<and> ToolData_chatProperties cfg t = [abilityLabels cfg (ability t)]"
  by (simp add: EquipmentData_chatProperties_def ConsumableData_chatProperties_def
      ToolData_chatProperties_def)

text \<open>
  The theorem at a leather armor with all three entries and at one without a parent
  document, at a potion with 1 of 3 charges, and at a tool.
\<close>

theorem chatProperties_placeholders_witness:
  "EquipmentData_chatProperties example_config
     \<lparr>parent = Some \<lparr>actor = None, labels = Some [''armor'' \<mapsto> ''11 AC'']\<rparr>, baseItem = ''leather'',
      proficient = JNull, armor_type = ''light'', stealth = True\<rparr>
     = Inr [JStr ''Light Armor'', JStr ''11 AC'', JStr ''DND5E.StealthDisadvantage'']
   \<and> EquipmentData_chatProperties example_config
     \<lparr>parent = None, baseItem = ''leather'',
      proficient = JNull, armor_type = ''light'', stealth = True\<rparr> = Inl TypeError
   \<and> ConsumableData_chatProperties example_config
     \<lparr>parent = None, consumableType = ''potion'', hasLimitedUses = True,
      uses_value = JNum (Fin 1), uses_max = JNum (Fin 3)\<rparr> = [JStr ''Potion'', JStr ''1/3 DND5E.Charges'']
   \<and> ToolData_chatProperties example_config
     \<lparr>parent = None, baseItem = ''lute'', proficient = JNull, toolType = ''music'', ability = ''dex''\<rparr>
     = [JStr ''Dexterity'']"
  using chatProperties_placeholders [where cfg = example_config
      and item = "\<lparr>actor = None, labels = Some [''armor'' \<mapsto> ''11 AC'']\<rparr>"
      and e = "\<lparr>parent = Some \<lparr>actor = None, labels = Some [''armor'' \<mapsto> ''11 AC'']\<rparr>, baseItem = ''leather'',
        proficient = JNull, armor_type = ''light'', stealth = True\<rparr>"
      and c = "\<lparr>parent = None, consumableType = ''potion'', hasLimitedUses = True,
        uses_value = JNum (Fin 1), uses_max = JNum (Fin 3)\<rparr>"
      and t = "\<lparr>parent = None, baseItem = ''lute'', proficient = JNull, toolType = ''music'', ability = ''dex''\<rparr>"]
    chatProperties_placeholders [where cfg = example_config
      and e = "\<lparr>parent = None, baseItem = ''leather'',
        proficient = JNull, armor_type = ''light'', stealth = True\<rparr>"]
  by (simp add: example_config_def table_without_prototype_def)

text \<open>
  The claim as stated fails: for clothing without an armor label and a potion without
  limited uses the lists hold \<open>null\<close> entries.
\<close>

theorem chatProperties_null_entries:
  "EquipmentData_chatProperties example_config
     \<lparr>parent = Some \<lparr>actor = None, labels = None\<rparr>, baseItem = ''robe'',
      proficient = JNull, armor_type = ''clothing'', stealth = False\<rparr>
     = Inr [JStr ''Clothing'', JNull, JNull]
   \<and> ConsumableData_chatProperties example_config
     \<lparr>parent = None, consumableType = ''potion'', hasLimitedUses = False,
      uses_value = JNull, uses_max = JNull\<rparr> = [JStr ''Potion'', JNull]"
  by (simp add: EquipmentData_chatProperties_def ConsumableData_chatProperties_def
      example_config_def table_without_prototype_def)

section \<open>Properties of the character sheet\<close>

lemma mset_pair_cases:
  assumes "mset xs = {#a, b#}"
  obtains "xs = [a, b]" | "xs = [b, a]"
proof -
  have "size (mset xs) = size {#a, b#}" using assms by (rule arg_cong)
  then have "length xs = Suc (Suc 0)" by simp
  then obtain x y where xs: "xs = [x, y]"
    by (auto simp: length_Suc_conv)
  have "set_mset (mset xs) = set_mset {#a, b#}" using assms by (rule arg_cong)
  then have "{x, y} = {a, b}" using xs by simp
  then have "(x = a \<and> y = b) \<or> (x = b \<and> y = a)"
    by (simp add: doubleton_eq_iff)
  then show ?thesis using xs that by blast
qed

lemma example_partition:
  assumes "mset items = {#class_item idA nameA ''fighter'' 5, class_item idB nameB ''wizard'' 3,
                          subclass_item id1 name1 ''fighter'', subclass_item id2 name2 ''rogue''#}"
  shows "filter (\<lambda>i. item_type i = ''feat'') items = []"
    and "mset (filter (\<lambda>i. item_type i = ''class'') items)
           = {#class_item idA nameA ''fighter'' 5, class_item idB nameB ''wizard'' 3#}"
    and "mset (filter (\<lambda>i. item_type i = ''subclass'') items)
           = {#subclass_item id1 name1 ''fighter'', subclass_item id2 name2 ''rogue''#}"
proof -
  have "mset (filter (\<lambda>i. item_type i = ''feat'') items) = {#}"
    by (simp add: assms class_item_def subclass_item_def)
  then show "filter (\<lambda>i. item_type i = ''feat'') items = []" by simp
  show "mset (filter (\<lambda>i. item_type i = ''class'') items)
           = {#class_item idA nameA ''fighter'' 5, class_item idB nameB ''wizard'' 3#}"
    by (simp add: assms) (simp add: class_item_def subclass_item_def)
  show "mset (filter (\<lambda>i. item_type i = ''subclass'') items)
           = {#subclass_item id1 name1 ''fighter'', subclass_item id2 name2 ''rogue''#}"
    by (simp add: assms) (simp add: class_item_def subclass_item_def)
qed

text \<open>
  Claim C8. For the classes A (identifier \<open>fighter\<close>, 5 levels) and B
  (\<open>wizard\<close>, 3 levels) and the subclasses S1 (of \<open>fighter\<close>) and S2 (of
  \<open>rogue\<close>), given in any order: the class section is A, S1, B; S2 is the one
  passive feature, no feature is active; and one warning is added to the warnings of the
  context, its message formatted from the name of S2 and the class identifier
  \<open>rogue\<close>. The function returns the view for every configuration, actor level,
  filter and context.
\<close>

theorem class_subclass_pairing:
  assumes "mset items = {#class_item idA nameA ''fighter'' 5, class_item idB nameB ''wizard'' 3,
                          subclass_item id1 name1 ''fighter'', subclass_item id2 name2 ''rogue''#}"
  shows "classes_items (prepareItems cfg actor_level features_filter context_warnings items)
           = [class_item idA nameA ''fighter'' 5, subclass_item id1 name1 ''fighter'',
              class_item idB nameB ''wizard'' 3]
       \<and> passive_items (prepareItems cfg actor_level features_filter context_warnings items)
           = [subclass_item id2 name2 ''rogue'']
       \<and> active_items (prepareItems cfg actor_level features_filter context_warnings items) = []
       \<and> warnings (prepareItems cfg actor_level features_filter context_warnings items)
           = context_warnings @
             [\<lparr>message = format cfg ''DND5E.SubclassMismatchWarn''
                           [(''name'', name2), (''class'', ''rogue'')],
               warning_type = ''warning''\<rparr>]"
proof -
  note parts = example_partition [OF assms]
  from parts(2) show ?thesis
  proof (cases rule: mset_pair_cases)
    case 1
    note classes = this
    from parts(3) show ?thesis
    proof (cases rule: mset_pair_cases)
      case 1
      then show ?thesis using classes parts(1)
        by (simp add: prepareItems_def Let_def class_item_def subclass_item_def
            subclass_warning_def has_activation_def)
    next
      case 2
      then show ?thesis using classes parts(1)
        by (simp add: prepareItems_def Let_def class_item_def subclass_item_def
            subclass_warning_def has_activation_def)
    qed
  next
    case 2
    note classes = this
    from parts(3) show ?thesis
    proof (cases rule: mset_pair_cases)
      case 1
      then show ?thesis using classes parts(1)
        by (simp add: prepareItems_def Let_def class_item_def subclass_item_def
            subclass_warning_def has_activation_def)
    next
      case 2
      then show ?thesis using classes parts(1)
        by (simp add: prepareItems_def Let_def class_item_def subclass_item_def
            subclass_warning_def has_activation_def)
    qed
  qed
qed

text \<open>
  The theorem with the items in the order B, S2, A, S1, and the example configuration,
  whose format function appends the data to the key of the message.
\<close>

theorem class_subclass_pairing_witness:
  "mset [class_item ''b'' ''Wizard'' ''wizard'' 3, subclass_item ''s2'' ''Thief'' ''rogue'',
         class_item ''a'' ''Fighter'' ''fighter'' 5, subclass_item ''s1'' ''Champion'' ''fighter'']
     = {#class_item ''a'' ''Fighter'' ''fighter'' 5, class_item ''b'' ''Wizard'' ''wizard'' 3,
         subclass_item ''s1'' ''Champion'' ''fighter'', subclass_item ''s2'' ''Thief'' ''rogue''#}
   \<and> classes_items (prepareItems example_config 8 (\<lambda>feat. True) []
       [class_item ''b'' ''Wizard'' ''wizard'' 3, subclass_item ''s2'' ''Thief'' ''rogue'',
        class_item ''a'' ''Fighter'' ''fighter'' 5, subclass_item ''s1'' ''Champion'' ''fighter''])
     = [class_item ''a'' ''Fighter'' ''fighter'' 5, subclass_item ''s1'' ''Champion'' ''fighter'',
        class_item ''b'' ''Wizard'' ''wizard'' 3]
   \<and> passive_items (prepareItems example_config 8 (\<lambda>feat. True) []
       [class_item ''b'' ''Wizard'' ''wizard'' 3, subclass_item ''s2'' ''Thief'' ''rogue'',
        class_item ''a'' ''Fighter'' ''fighter'' 5, subclass_item ''s1'' ''Champion'' ''fighter''])
     = [subclass_item ''s2'' ''Thief'' ''rogue'']
   \<and> warnings (prepareItems example_config 8 (\<lambda>feat. True) []
       [class_item ''b'' ''Wizard'' ''wizard'' 3, subclass_item ''s2'' ''Thief'' ''rogue'',
        class_item ''a'' ''Fighter'' ''fighter'' 5, subclass_item ''s1'' ''Champion'' ''fighter''])
     = [\<lparr>message = ''DND5E.SubclassMismatchWarn name=Thief class=rogue'', warning_type = ''warning''\<rparr>]"
proof -
  have items: "mset [class_item ''b'' ''Wizard'' ''wizard'' 3, subclass_item ''s2'' ''Thief'' ''rogue'',
         class_item ''a'' ''Fighter'' ''fighter'' 5, subclass_item ''s1'' ''Champion'' ''fighter'']
     = {#class_item ''a'' ''Fighter'' ''fighter'' 5, class_item ''b'' ''Wizard'' ''wizard'' 3,
         subclass_item ''s1'' ''Champion'' ''fighter'', subclass_item ''s2'' ''Thief'' ''rogue''#}"
    by (simp add: add_mset_commute)
  show ?thesis
    using items class_subclass_pairing [OF items, of example_config 8 "\<lambda>feat. True" "[]"]
    by (simp add: example_config_def)
qed








end
